theory Spec2Isabelle
  imports Main
begin

text \<open>
  The admin console of KinPeek: a page script that logs in, lists the shared videos and
  creates, edits and deletes shares through a REST backend. The theory embeds the
  console script (its request gateway \<open>apiRequest\<close>, the table rendering and the
  listeners of the create form, the title lookup, the edit modal and the row buttons)
  and the older script under \<^verbatim>\<open>static/\<close> (its list loading and its create form).

  A listener is a function from the page before the event to the page after it. The
  network, the clock, the user's answer to a confirmation and the platform's date
  functions are an environment given to every listener. Each request is logged in the
  page's trace when it is sent, and its answer when it is received; \<^verbatim>\<open>await\<close> is the
  sequencing of the two. A listener runs to its end, including the list refresh it
  starts as its last statement; listeners of different events are not interleaved. An
  exception is a value: functions that can throw return \<open>js_error + 'a\<close>.
  Writes to the console log are left out.
\<close>

section \<open>JavaScript values\<close>

text \<open>
  Values that reach the admin console from JSON responses, from the DOM and from
  \<^verbatim>\<open>localStorage\<close>. Numbers are the integers (the backend contract sends integer ids,
  counters and day counts); \<^verbatim>\<open>NaN\<close> only arises from \<^verbatim>\<open>parseInt\<close> and from date
  arithmetic and is modelled there as \<open>None\<close>. An object is the list of its
  properties with distinct keys, as JSON parsing yields it, looked up by key. Strings
  are lists of 8-bit characters.
\<close>

datatype jsval =
    JUndefined
  | JNull
  | JBool bool
  | JNum int
  | JStr string
  | JArr "jsval list"
  | JObj "(string \<times> jsval) list"

datatype js_error =
    Error string
  | TypeError string
  | SyntaxError string

fun message :: "js_error \<Rightarrow> string" where
  "message (Error m) = m"
| "message (TypeError m) = m"
| "message (SyntaxError m) = m"

text \<open>Truthiness, as used by \<^verbatim>\<open>!x\<close>, \<^verbatim>\<open>x || y\<close>, \<^verbatim>\<open>x && y\<close> and \<^verbatim>\<open>if (x)\<close>.\<close>

fun js_truthy :: "jsval \<Rightarrow> bool" where
  "js_truthy JUndefined = False"
| "js_truthy JNull = False"
| "js_truthy (JBool b) = b"
| "js_truthy (JNum n) = (n \<noteq> 0)"
| "js_truthy (JStr s) = (s \<noteq> [])"
| "js_truthy (JArr xs) = True"
| "js_truthy (JObj kvs) = True"

text \<open>Decimal rendering of a number, as template literals and \<^verbatim>\<open>String(n)\<close> produce it.\<close>

fun show_nat :: "nat \<Rightarrow> string" where
  "show_nat n =
     (if n < 10 then [''0123456789'' ! n]
      else show_nat (n div 10) @ [''0123456789'' ! (n mod 10)])"

declare show_nat.simps [simp del]

definition show_int :: "int \<Rightarrow> string" where
  "show_int n = (if n < 0 then ''-'' @ show_nat (nat (- n)) else show_nat (nat n))"

text \<open>A number that may be \<^verbatim>\<open>NaN\<close> (\<open>None\<close>).\<close>

definition show_number :: "int option \<Rightarrow> string" where
  "show_number x = (case x of None \<Rightarrow> ''NaN'' | Some n \<Rightarrow> show_int n)"

fun join_comma :: "string list \<Rightarrow> string" where
  "join_comma [] = []"
| "join_comma [x] = x"
| "join_comma (x # y # ys) = x @ '','' @ join_comma (y # ys)"

text \<open>
  The \<^verbatim>\<open>ToString\<close> conversion applied by template literals, by \<^verbatim>\<open>new Error(x)\<close>, by
  \<^verbatim>\<open>createTextNode(x)\<close> and by the \<^verbatim>\<open>textContent\<close> and \<^verbatim>\<open>value\<close> setters.
\<close>

fun js_to_string :: "jsval \<Rightarrow> string" where
  "js_to_string JUndefined = ''undefined''"
| "js_to_string JNull = ''null''"
| "js_to_string (JBool b) = (if b then ''true'' else ''false'')"
| "js_to_string (JNum n) = show_int n"
| "js_to_string (JStr s) = s"
| "js_to_string (JArr xs) =
     join_comma (map (\<lambda>x. if x = JNull \<or> x = JUndefined then [] else js_to_string x) xs)"
| "js_to_string (JObj kvs) = ''[object Object]''"

text \<open>
  Property read \<^verbatim>\<open>v.k\<close> for the keys the console reads (\<^verbatim>\<open>detail\<close>, \<^verbatim>\<open>title\<close>,
  \<^verbatim>\<open>share_url\<close>, the fields of a share record): a \<^verbatim>\<open>TypeError\<close> on \<^verbatim>\<open>null\<close> and
  \<^verbatim>\<open>undefined\<close>, the stored value on an object, \<^verbatim>\<open>undefined\<close> otherwise.
\<close>

fun get_prop :: "jsval \<Rightarrow> string \<Rightarrow> js_error + jsval" where
  "get_prop JNull k = Inl (TypeError (''Cannot read properties of null (reading '' @ k @ '')''))"
| "get_prop JUndefined k =
     Inl (TypeError (''Cannot read properties of undefined (reading '' @ k @ '')''))"
| "get_prop (JObj kvs) k = Inr (case map_of kvs k of None \<Rightarrow> JUndefined | Some v \<Rightarrow> v)"
| "get_prop v k = Inr JUndefined"

text \<open>\<^verbatim>\<open>v.length\<close>: defined on arrays and strings, an ordinary property of an object.\<close>

fun js_length :: "jsval \<Rightarrow> js_error + jsval" where
  "js_length (JArr xs) = Inr (JNum (int (length xs)))"
| "js_length (JStr s) = Inr (JNum (int (length s)))"
| "js_length v = get_prop v ''length''"

section \<open>Platform functions\<close>

subsection \<open>\<^verbatim>\<open>parseInt\<close>\<close>

definition is_ws :: "char \<Rightarrow> bool" where
  "is_ws c = (c \<in> set [CHR 0x20, CHR 0x09, CHR 0x0A, CHR 0x0B, CHR 0x0C, CHR 0x0D, CHR 0xA0])"

definition is_digit :: "char \<Rightarrow> bool" where
  "is_digit c = (c \<in> set ''0123456789'')"

definition is_hex_digit :: "char \<Rightarrow> bool" where
  "is_hex_digit c = (c \<in> set ''0123456789abcdefABCDEF'')"

definition digit_val :: "char \<Rightarrow> nat" where
  "digit_val c =
     (if c \<in> set ''0123456789'' then of_char c - 48
      else if c \<in> set ''abcdef'' then of_char c - 87
      else of_char c - 55)"

definition digits_value :: "nat \<Rightarrow> string \<Rightarrow> nat" where
  "digits_value radix ds = foldl (\<lambda>acc c. radix * acc + digit_val c) 0 ds"

text \<open>Leading white space is skipped, then an optional sign is read.\<close>

definition strip_sign :: "string \<Rightarrow> bool \<times> string" where
  "strip_sign s =
     (let t = dropWhile is_ws s in
      case t of
        [] \<Rightarrow> (False, t)
      | c # r \<Rightarrow> if c = CHR ''-'' then (True, r) else if c = CHR ''+'' then (False, r) else (False, t))"

definition signed :: "bool \<Rightarrow> nat \<Rightarrow> int" where
  "signed neg n = (if neg then - int n else int n)"

text \<open>\<^verbatim>\<open>parseInt(s, 10)\<close>: the longest prefix of decimal digits, \<^verbatim>\<open>NaN\<close> when it is empty.\<close>

definition parseInt10 :: "string \<Rightarrow> int option" where
  "parseInt10 s =
     (let (neg, u) = strip_sign s; ds = takeWhile is_digit u in
      if ds = [] then None else Some (signed neg (digits_value 10 ds)))"

text \<open>\<^verbatim>\<open>parseInt(s)\<close> with no radix: hexadecimal after \<^verbatim>\<open>0x\<close> or \<^verbatim>\<open>0X\<close>, decimal otherwise.\<close>

definition parseInt :: "string \<Rightarrow> int option" where
  "parseInt s =
     (let (neg, u) = strip_sign s in
      if take 2 u = ''0x'' \<or> take 2 u = ''0X'' then
        (let ds = takeWhile is_hex_digit (drop 2 u) in
         if ds = [] then None else Some (signed neg (digits_value 16 ds)))
      else
        (let ds = takeWhile is_digit u in
         if ds = [] then None else Some (signed neg (digits_value 10 ds))))"

subsection \<open>Serialising and parsing markup\<close>

text \<open>
  \<^verbatim>\<open>escapeHTML(str)\<close> puts \<^verbatim>\<open>str\<close> into a text node and reads the parent's
  \<^verbatim>\<open>innerHTML\<close>. The fragment serialiser replaces, in a text node, the ampersand, the
  no-break space and the two angle brackets; a quotation mark is left as it is.
\<close>

definition escape_char :: "char \<Rightarrow> string" where
  "escape_char c =
     (if c = CHR ''&'' then ''&amp;''
      else if c = CHR 0xA0 then ''&nbsp;''
      else if c = CHR ''<'' then ''&lt;''
      else if c = CHR ''>'' then ''&gt;''
      else [c])"

definition escapeHTML :: "jsval \<Rightarrow> string" where
  "escapeHTML str = concat (map escape_char (js_to_string str))"

text \<open>
  Reading an attribute back with \<^verbatim>\<open>getAttribute\<close>: the parser replaces character
  references in the attribute's text. Of the named references only the five below are
  modelled; an ampersand that no letter, digit or number sign follows stands for itself.
\<close>

function decode_refs :: "string \<Rightarrow> string" where
  "decode_refs [] = []"
| "decode_refs (c # cs) =
     (if c = CHR ''&'' \<and> take 4 cs = ''amp;'' then CHR ''&'' # decode_refs (drop 4 cs)
      else if c = CHR ''&'' \<and> take 5 cs = ''nbsp;'' then CHR 0xA0 # decode_refs (drop 5 cs)
      else if c = CHR ''&'' \<and> take 3 cs = ''lt;'' then CHR ''<'' # decode_refs (drop 3 cs)
      else if c = CHR ''&'' \<and> take 3 cs = ''gt;'' then CHR ''>'' # decode_refs (drop 3 cs)
      else if c = CHR ''&'' \<and> take 5 cs = ''quot;'' then CHR 0x22 # decode_refs (drop 5 cs)
      else c # decode_refs cs)"
  by pat_completeness auto
termination
  by (relation "measure length") auto

definition is_letter :: "char \<Rightarrow> bool" where
  "is_letter c = (c \<in> set ''abcdefghijklmnopqrstuvwxyzABCDEFGHIJKLMNOPQRSTUVWXYZ'')"

definition is_alnum :: "char \<Rightarrow> bool" where
  "is_alnum c = (is_letter c \<or> is_digit c)"

text \<open>
  Whether every ampersand of an attribute's text is covered by \<open>decode_refs\<close>: it
  starts one of the five references, or nothing that could name a reference follows it.
\<close>

function modelled_refs :: "string \<Rightarrow> bool" where
  "modelled_refs [] = True"
| "modelled_refs (c # cs) =
     (if c = CHR ''&'' \<and> take 4 cs = ''amp;'' then modelled_refs (drop 4 cs)
      else if c = CHR ''&'' \<and> take 5 cs = ''nbsp;'' then modelled_refs (drop 5 cs)
      else if c = CHR ''&'' \<and> take 3 cs = ''lt;'' then modelled_refs (drop 3 cs)
      else if c = CHR ''&'' \<and> take 3 cs = ''gt;'' then modelled_refs (drop 3 cs)
      else if c = CHR ''&'' \<and> take 5 cs = ''quot;'' then modelled_refs (drop 5 cs)
      else if c = CHR ''&'' then
        (case cs of [] \<Rightarrow> True | d # ds \<Rightarrow> \<not> is_alnum d \<and> d \<noteq> CHR ''#'' \<and> modelled_refs cs)
      else modelled_refs cs)"
  by pat_completeness auto
termination
  by (relation "measure length") auto

text \<open>
  Assigning to \<^verbatim>\<open>innerHTML\<close> runs the HTML parser over the markup. The part of its
  tokenizer that the rows need is modelled state by state: text, and the start and end
  tags of \<^verbatim>\<open>td\<close>, \<^verbatim>\<open>a\<close> and \<^verbatim>\<open>button\<close> whose attributes are written
  \<^verbatim>\<open>name="value"\<close>. Each such start tag gives one element with the tag's attributes
  (the first of two attributes of one name counts). Anything else (comments, other
  tags, other ways to write an attribute, a carriage return or a NUL inside a tag) is
  \<open>Unmodelled\<close>, and the markup then has no modelled reading. Attribute values are
  kept as written; character references are replaced when an attribute is read.
\<close>

definition is_html_space :: "char \<Rightarrow> bool" where
  "is_html_space c = (c \<in> set [CHR 0x09, CHR 0x0A, CHR 0x0C, CHR 0x0D, CHR 0x20])"

definition lower :: "char \<Rightarrow> char" where
  "lower c =
     (case map_of (zip ''ABCDEFGHIJKLMNOPQRSTUVWXYZ'' ''abcdefghijklmnopqrstuvwxyz'') c of
        None \<Rightarrow> c
      | Some d \<Rightarrow> d)"

type_synonym attributes = "(string \<times> string) list"

datatype tokenizer_state =
    Data
  | TagOpen
  | EndTagOpen
  | TagName
  | EndTagName string
  | BeforeAttributeName
  | AttributeName string
  | BeforeAttributeValue string
  | AttributeValue string string
  | AfterAttributeValue
  | Unmodelled

text \<open>
  The tokenizer's state, the name and the attributes of the start tag being read, and
  the start tags read so far.
\<close>

datatype tokenizer = Tokenizer tokenizer_state string attributes "(string \<times> attributes) list"

definition known_tag :: "string \<Rightarrow> bool" where
  "known_tag n = (n \<in> set [''td'', ''a'', ''button''])"

definition emit :: "string \<Rightarrow> attributes \<Rightarrow> (string \<times> attributes) list \<Rightarrow> tokenizer" where
  "emit n as out =
     (if known_tag n then Tokenizer Data n as (out @ [(n, as)]) else Tokenizer Unmodelled n as out)"

fun step :: "tokenizer \<Rightarrow> char \<Rightarrow> tokenizer" where
  "step (Tokenizer Data n as out) c =
     (if c = CHR ''<'' then Tokenizer TagOpen n as out else Tokenizer Data n as out)"
| "step (Tokenizer TagOpen n as out) c =
     (if c = CHR ''/'' then Tokenizer EndTagOpen n as out
      else if is_letter c then Tokenizer TagName [lower c] [] out
      else Tokenizer Unmodelled n as out)"
| "step (Tokenizer EndTagOpen n as out) c =
     (if is_letter c then Tokenizer (EndTagName [lower c]) n as out
      else Tokenizer Unmodelled n as out)"
| "step (Tokenizer TagName n as out) c =
     (if is_html_space c then
        (if known_tag n then Tokenizer BeforeAttributeName n as out
         else Tokenizer Unmodelled n as out)
      else if c = CHR ''>'' then emit n as out
      else if c = CHR ''/'' \<or> c = CHR 0x00 then Tokenizer Unmodelled n as out
      else Tokenizer TagName (n @ [lower c]) as out)"
| "step (Tokenizer (EndTagName m) n as out) c =
     (if c = CHR ''>'' then
        (if known_tag m then Tokenizer Data n as out else Tokenizer Unmodelled n as out)
      else if is_html_space c \<or> c = CHR ''/'' \<or> c = CHR 0x00 then Tokenizer Unmodelled n as out
      else Tokenizer (EndTagName (m @ [lower c])) n as out)"
| "step (Tokenizer BeforeAttributeName n as out) c =
     (if is_html_space c then Tokenizer BeforeAttributeName n as out
      else if c = CHR ''>'' then emit n as out
      else if c \<in> set [CHR ''/'', CHR ''='', CHR 0x22, CHR 0x27, CHR ''<'', CHR 0x00]
        then Tokenizer Unmodelled n as out
      else Tokenizer (AttributeName [lower c]) n as out)"
| "step (Tokenizer (AttributeName a) n as out) c =
     (if c = CHR ''='' then Tokenizer (BeforeAttributeValue a) n as out
      else if is_html_space c \<or>
              c \<in> set [CHR ''/'', CHR ''>'', CHR 0x22, CHR 0x27, CHR ''<'', CHR 0x00]
        then Tokenizer Unmodelled n as out
      else Tokenizer (AttributeName (a @ [lower c])) n as out)"
| "step (Tokenizer (BeforeAttributeValue a) n as out) c =
     (if c = CHR 0x22 then Tokenizer (AttributeValue a []) n as out
      else Tokenizer Unmodelled n as out)"
| "step (Tokenizer (AttributeValue a v) n as out) c =
     (if c = CHR 0x22 then Tokenizer AfterAttributeValue n (as @ [(a, v)]) out
      else if c = CHR 0x00 \<or> c = CHR 0x0D then Tokenizer Unmodelled n as out
      else Tokenizer (AttributeValue a (v @ [c])) n as out)"
| "step (Tokenizer AfterAttributeValue n as out) c =
     (if is_html_space c then Tokenizer BeforeAttributeName n as out
      else if c = CHR ''>'' then emit n as out
      else Tokenizer Unmodelled n as out)"
| "step (Tokenizer Unmodelled n as out) c = Tokenizer Unmodelled n as out"

text \<open>The start tags of a markup string, when all of it is modelled and no tag is left open.\<close>

definition start_tags_of :: "string \<Rightarrow> (string \<times> attributes) list option" where
  "start_tags_of markup =
     (case foldl step (Tokenizer Data [] [] []) markup of
        Tokenizer Data n as out \<Rightarrow> Some out
      | _ \<Rightarrow> None)"

text \<open>The class names of an element: its \<^verbatim>\<open>class\<close> attribute split at white space.\<close>

fun words_from :: "string \<Rightarrow> string \<Rightarrow> string list" where
  "words_from w [] = (if w = [] then [] else [w])"
| "words_from w (c # cs) =
     (if is_html_space c then (if w = [] then words_from [] cs else w # words_from [] cs)
      else words_from (w @ [c]) cs)"

definition class_list :: "attributes \<Rightarrow> string list option" where
  "class_list as =
     (case map_of as ''class'' of
        None \<Rightarrow> Some []
      | Some v \<Rightarrow> if CHR ''&'' \<in> set v then None else Some (words_from [] v))"

text \<open>
  The elements that \<^verbatim>\<open>querySelectorAll('.edit-button')\<close> finds among those of a markup
  string, each as its attributes.
\<close>

fun edit_button_tags :: "(string \<times> attributes) list \<Rightarrow> attributes list option" where
  "edit_button_tags [] = Some []"
| "edit_button_tags ((n, as) # ts) =
     (case class_list as of
        None \<Rightarrow> None
      | Some cl \<Rightarrow>
          (case edit_button_tags ts of
             None \<Rightarrow> None
           | Some bs \<Rightarrow> Some (if ''edit-button'' \<in> set cl then as # bs else bs)))"

definition edit_buttons :: "string \<Rightarrow> attributes list option" where
  "edit_buttons markup =
     (case start_tags_of markup of None \<Rightarrow> None | Some ts \<Rightarrow> edit_button_tags ts)"

text \<open>
  Text that opens no tag where it stands between tags, and text that stays inside the
  quotation marks of an attribute and is read back as it was written.
\<close>

definition text_safe :: "string \<Rightarrow> bool" where
  "text_safe w = (CHR ''<'' \<notin> set w)"

definition value_safe :: "string \<Rightarrow> bool" where
  "value_safe w = list_all (\<lambda>c. c \<noteq> CHR 0x22 \<and> c \<noteq> CHR 0x00 \<and> c \<noteq> CHR 0x0D) w"

subsection \<open>Dates\<close>

text \<open>
  \<^verbatim>\<open>Math.ceil(diffTime / (1000 * 60 * 60 * 24))\<close> on whole milliseconds, in exact
  integer arithmetic.
\<close>

definition ms_per_day :: int where
  "ms_per_day = 1000 * 60 * 60 * 24"

definition ceil_div :: "int \<Rightarrow> int \<Rightarrow> int" where
  "ceil_div a b = - ((- a) div b)"

section \<open>The page and its environment\<close>

record request =
  req_url :: string
  req_method :: string
  req_headers :: "(string \<times> string) list"
  req_body :: "jsval option"

text \<open>
  A response as the console reads it: the status, the \<^verbatim>\<open>content-length\<close> header, and
  what \<^verbatim>\<open>response.json()\<close> settles to (an error when the body is not JSON). The
  \<^verbatim>\<open>ok\<close> flag is the status range 200 to 299.
\<close>

record response =
  status :: nat
  content_length :: "string option"
  json :: "js_error + jsval"

definition response_ok :: "response \<Rightarrow> bool" where
  "response_ok r = (200 \<le> status r \<and> status r \<le> 299)"

datatype fetch_result = Rejected js_error | Resolved response

datatype event = Sent request | Received fetch_result

text \<open>
  Everything outside the script: the server (its answer may depend on all earlier
  traffic), the clock, the platform's date parsing and formatting, the user's answer to
  \<^verbatim>\<open>confirm\<close>, and the default values that \<^verbatim>\<open>shareForm.reset()\<close> restores.
\<close>

record env =
  fetch :: "event list \<Rightarrow> request \<Rightarrow> fetch_result"
  clock :: int
  date_value :: "jsval \<Rightarrow> int option"
  toLocaleString :: "jsval \<Rightarrow> string"
  confirm :: "string \<Rightarrow> bool"
  stashId_default :: string
  videoName_default :: string
  daysValid_default :: string

datatype table_body = InnerHTML string | Rows "string list"

text \<open>
  The mutable state the handlers share: the token variable, the \<^verbatim>\<open>kinpeek_token\<close>
  entry of \<^verbatim>\<open>localStorage\<close>, the elements they write, the network traffic so far and
  the alerts shown.
\<close>

record page =
  authToken :: jsval
  stored_token :: "string option"
  loginSection_display :: string
  adminContent_display :: string
  loginError :: string
  shareMessage :: string
  shareError :: string
  editError :: string
  stashIdInput :: string
  videoNameInput :: string
  daysValidInput :: string
  editShareIdInput :: string
  editVideoNameInput :: string
  editDaysValidInput :: string
  editModal_display :: string
  tableBody :: table_body
  trace :: "event list"
  alerts :: "string list"

section \<open>Helper functions\<close>

definition showLogin :: "page \<Rightarrow> page" where
  "showLogin s =
     s\<lparr>loginSection_display := ''block'', adminContent_display := ''none'',
       stored_token := None, authToken := JNull\<rparr>"

definition clearMessages :: "page \<Rightarrow> page" where
  "clearMessages s = s\<lparr>loginError := [], shareMessage := [], shareError := [], editError := []\<rparr>"

definition auth_headers :: "bool \<Rightarrow> jsval \<Rightarrow> (string \<times> string) list" where
  "auth_headers requiresAuth tok =
     (''Content-Type'', ''application/json'') #
     (if requiresAuth then [(''Authorization'', ''Bearer '' @ js_to_string tok)] else [])"

text \<open>The part of \<^verbatim>\<open>apiRequest\<close> after \<^verbatim>\<open>fetch\<close> has resolved.\<close>

definition handle_response :: "bool \<Rightarrow> response \<Rightarrow> page \<Rightarrow> page \<times> (js_error + jsval)" where
  "handle_response requiresAuth r s =
     (if status r = 401 \<and> requiresAuth then (showLogin s, Inl (Error ''Authentication failed''))
      else if \<not> response_ok r then
        (let errorData =
               (case json r of
                  Inl e \<Rightarrow> JObj [(''detail'', JStr ''Unknown error'')]
                | Inr v \<Rightarrow> v)
         in case get_prop errorData ''detail'' of
              Inl e \<Rightarrow> (s, Inl e)
            | Inr d \<Rightarrow>
                (s, Inl (Error (if js_truthy d then js_to_string d
                                else ''HTTP error! status: '' @ show_nat (status r)))))
      else if status r = 204 \<or> content_length r = Some ''0'' then (s, Inr JNull)
      else (s, json r))"

definition apiRequest ::
  "env \<Rightarrow> string \<Rightarrow> string \<Rightarrow> jsval \<Rightarrow> bool \<Rightarrow> page \<Rightarrow> page \<times> (js_error + jsval)" where
  "apiRequest e url method body requiresAuth s =
     (if requiresAuth \<and> \<not> js_truthy (authToken s) then
        (showLogin s, Inl (Error ''Not authenticated''))
      else
        (let options =
               \<lparr>req_url = url, req_method = method,
                req_headers = auth_headers requiresAuth (authToken s),
                req_body = (if js_truthy body then Some body else None)\<rparr>;
             result = fetch e (trace s) options;
             s1 = s\<lparr>trace := trace s @ [Sent options, Received result]\<rparr>
         in case result of
              Rejected err \<Rightarrow> (s1, Inl err)
            | Resolved r \<Rightarrow> handle_response requiresAuth r s1))"

section \<open>Utility functions\<close>

definition calculateDaysRemaining :: "env \<Rightarrow> jsval \<Rightarrow> int option" where
  "calculateDaysRemaining e expiresAt =
     (let now = clock e; expiry = date_value e expiresAt in
      case expiry of
        None \<Rightarrow> None
      | Some t \<Rightarrow>
          (let diffTime = t - now;
               diffDays = ceil_div diffTime ms_per_day
           in Some (max 0 diffDays)))"

section \<open>Shared videos table\<close>

definition nl :: string where
  "nl = [CHR 0x0A]"

text \<open>A property read on a value already known not to be \<^verbatim>\<open>null\<close> or \<^verbatim>\<open>undefined\<close>.\<close>

definition read_prop :: "jsval \<Rightarrow> string \<Rightarrow> jsval" where
  "read_prop v k = (case get_prop v k of Inl err \<Rightarrow> JUndefined | Inr x \<Rightarrow> x)"

text \<open>
  The template literal assigned to \<^verbatim>\<open>row.innerHTML\<close>. The first property read
  (\<^verbatim>\<open>video.expires_at\<close>) throws on a \<^verbatim>\<open>null\<close> entry; the later ones cannot.
\<close>

definition row_html :: "env \<Rightarrow> jsval \<Rightarrow> js_error + string" where
  \<open>row_html e video =
     (case get_prop video ''expires_at'' of
        Inl err \<Rightarrow> Inl err
      | Inr expires_at \<Rightarrow>
          (let expiresDate = toLocaleString e expires_at;
               shareUrl = js_to_string (read_prop video ''share_url'');
               share_id = js_to_string (read_prop video ''share_id'');
               video_name = escapeHTML (read_prop video ''video_name'');
               days = show_number (calculateDaysRemaining e (read_prop video ''expires_at''))
           in Inr (concat
             [nl, ''                <td>'', share_id, ''</td>'',
              nl, ''                <td>'', video_name, ''</td>'',
              nl, ''                <td>'', js_to_string (read_prop video ''stash_video_id''), ''</td>'',
              nl, ''                <td>'', expiresDate, ''</td>'',
              nl, ''                <td>'', js_to_string (read_prop video ''hits''), ''</td>'',
              nl, ''                <td>'',
              nl, ''                    <a href="'', shareUrl, ''" target="_blank">'', shareUrl, ''</a>'',
              nl, ''                    <button class="copy-button" data-url="'', shareUrl,
                  ''">Copy</button>'',
              nl, ''                </td>'',
              nl, ''                <td>'',
              nl, ''                    <button class="edit-button" data-share-id="'', share_id,
                  ''" data-video-name="'', video_name,
                  ''" data-days-valid="'', days, ''">Edit</button>'',
              nl, ''                    <button class="delete-button" data-share-id="'', share_id,
                  ''">Delete</button>'',
              nl, ''                </td>'',
              nl, ''            ''])))\<close>

text \<open>\<^verbatim>\<open>videos.forEach\<close>: the rows in order, stopping at the first entry that throws.\<close>

fun render_rows :: "env \<Rightarrow> jsval list \<Rightarrow> js_error + string list" where
  "render_rows e [] = Inr []"
| "render_rows e (v # vs) =
     (case row_html e v of
        Inl err \<Rightarrow> Inl err
      | Inr r \<Rightarrow> (case render_rows e vs of Inl err \<Rightarrow> Inl err | Inr rs \<Rightarrow> Inr (r # rs)))"

definition no_videos_html :: string where
  \<open>no_videos_html = ''<tr><td colspan="7">No videos shared yet.</td></tr>''\<close>

definition load_failed_html :: string where
  \<open>load_failed_html =
     ''<tr><td colspan="7">Failed to load shared videos. Please try again.</td></tr>''\<close>

text \<open>
  \<^verbatim>\<open>renderSharedVideos\<close> returns the new table body, or the error it throws. Its only
  caller replaces the whole body on an error, so rows appended before the throw are not
  kept.
\<close>

definition renderSharedVideos :: "env \<Rightarrow> jsval \<Rightarrow> js_error + table_body" where
  "renderSharedVideos e videos =
     (if \<not> js_truthy videos \<or> js_length videos = Inr (JNum 0) then Inr (InnerHTML no_videos_html)
      else case videos of
             JArr vs \<Rightarrow>
               (case render_rows e vs of Inl err \<Rightarrow> Inl err | Inr rows \<Rightarrow> Inr (Rows rows))
           | _ \<Rightarrow> Inl (TypeError ''videos.forEach is not a function''))"

definition fetchSharedVideos :: "env \<Rightarrow> page \<Rightarrow> page" where
  "fetchSharedVideos e s =
     (case apiRequest e ''/shared_videos'' ''GET'' JNull True s of
        (s1, Inl err) \<Rightarrow> s1\<lparr>tableBody := InnerHTML load_failed_html\<rparr>
      | (s1, Inr videos) \<Rightarrow>
          (case renderSharedVideos e videos of
             Inl err \<Rightarrow> s1\<lparr>tableBody := InnerHTML load_failed_html\<rparr>
           | Inr body \<Rightarrow> s1\<lparr>tableBody := body\<rparr>))"

definition showAdmin :: "env \<Rightarrow> page \<Rightarrow> page" where
  "showAdmin e s =
     fetchSharedVideos e
       (s\<lparr>loginSection_display := ''none'', adminContent_display := ''block'', loginError := []\<rparr>)"

section \<open>Event listeners\<close>

definition lookupTitleButton_click :: "env \<Rightarrow> page \<Rightarrow> page" where
  "lookupTitleButton_click e s =
     (let s0 = clearMessages s; stashId = stashIdInput s0 in
      if stashId = [] then s0\<lparr>shareError := ''Please enter a Stash Video ID.''\<rparr>
      else
        case apiRequest e (''/get_video_title/'' @ stashId) ''GET'' JNull True s0 of
          (s1, Inr data) \<Rightarrow>
            if js_truthy data \<and> js_truthy (read_prop data ''title'') then
              s1\<lparr>videoNameInput := js_to_string (read_prop data ''title'')\<rparr>
            else
              s1\<lparr>shareError := ''Could not find title for this ID.'', videoNameInput := []\<rparr>
        | (s1, Inl err) \<Rightarrow>
            s1\<lparr>shareError := ''Error looking up title: '' @ message err, videoNameInput := []\<rparr>)"

definition shareData :: "string \<Rightarrow> int \<Rightarrow> int \<Rightarrow> jsval" where
  "shareData video_name stash_video_id days_valid =
     JObj [(''video_name'', JStr video_name), (''stash_video_id'', JNum stash_video_id),
           (''days_valid'', JNum days_valid)]"

definition shareForm_reset :: "env \<Rightarrow> page \<Rightarrow> page" where
  "shareForm_reset e s =
     s\<lparr>stashIdInput := stashId_default e, videoNameInput := videoName_default e,
       daysValidInput := daysValid_default e\<rparr>"

definition shareForm_submit :: "env \<Rightarrow> page \<Rightarrow> page" where
  "shareForm_submit e s =
     (let s0 = clearMessages s;
          video_name = videoNameInput s0;
          stash_video_id = parseInt10 (stashIdInput s0);
          days_valid = parseInt10 (daysValidInput s0)
      in case (stash_video_id, days_valid) of
           (Some sid, Some dv) \<Rightarrow>
             if video_name = [] then s0\<lparr>shareError := ''Please fill in all fields correctly.''\<rparr>
             else
               (case apiRequest e ''/share'' ''POST'' (shareData video_name sid dv) True s0 of
                  (s1, Inr result) \<Rightarrow>
                    (case get_prop result ''share_url'' of
                       Inl err \<Rightarrow> s1\<lparr>shareError := ''Failed to share video: '' @ message err\<rparr>
                     | Inr share_url \<Rightarrow>
                         fetchSharedVideos e
                           (shareForm_reset e
                             (s1\<lparr>shareMessage :=
                                   ''Video shared successfully! URL: '' @ js_to_string share_url\<rparr>)))
                | (s1, Inl err) \<Rightarrow> s1\<lparr>shareError := ''Failed to share video: '' @ message err\<rparr>)
         | _ \<Rightarrow> s0\<lparr>shareError := ''Please fill in all fields correctly.''\<rparr>)"

text \<open>
  What \<^verbatim>\<open>getAttribute\<close> returns for the three data attributes of an edit button
  (\<open>None\<close> is \<^verbatim>\<open>null\<close>).
\<close>

record edit_button =
  data_share_id :: "string option"
  data_video_name :: "string option"
  data_days_valid :: "string option"

text \<open>Assigning to an input's \<^verbatim>\<open>value\<close>: \<^verbatim>\<open>null\<close> gives the empty string.\<close>

definition input_value :: "string option \<Rightarrow> string" where
  "input_value a = (case a of None \<Rightarrow> [] | Some v \<Rightarrow> v)"

text \<open>An attribute read used as a string (in \<^verbatim>\<open>parseInt\<close>, in a template literal).\<close>

definition attr_string :: "string option \<Rightarrow> string" where
  "attr_string a = (case a of None \<Rightarrow> ''null'' | Some v \<Rightarrow> v)"

text \<open>\<^verbatim>\<open>Math.max(1, parseInt(daysValid) || 7)\<close>\<close>

definition edit_days :: "string option \<Rightarrow> int" where
  "edit_days daysValid =
     max 1 (case parseInt (attr_string daysValid) of
              None \<Rightarrow> 7
            | Some n \<Rightarrow> if n = 0 then 7 else n)"

definition editButton_click :: "edit_button \<Rightarrow> page \<Rightarrow> page" where
  "editButton_click target s =
     clearMessages
       (s\<lparr>editShareIdInput := input_value (data_share_id target),
          editVideoNameInput := input_value (data_video_name target),
          editDaysValidInput := show_int (edit_days (data_days_valid target)),
          editModal_display := ''block''\<rparr>)"

definition deleteButton_click :: "env \<Rightarrow> string option \<Rightarrow> page \<Rightarrow> page" where
  "deleteButton_click e target_share_id s =
     (let shareId = attr_string target_share_id in
      if confirm e (''Are you sure you want to delete share '' @ shareId @ ''?'') then
        case apiRequest e (''/delete_share/'' @ shareId) ''DELETE'' JNull True s of
          (s1, Inr r) \<Rightarrow> fetchSharedVideos e s1
        | (s1, Inl err) \<Rightarrow> s1\<lparr>alerts := alerts s1 @ [''Failed to delete share: '' @ message err]\<rparr>
      else s)"

definition cancelEditButton_click :: "page \<Rightarrow> page" where
  "cancelEditButton_click s = s\<lparr>editModal_display := ''none''\<rparr>"

definition updatedData :: "string \<Rightarrow> int \<Rightarrow> jsval" where
  "updatedData video_name days_valid =
     JObj [(''video_name'', JStr video_name), (''stash_video_id'', JNum 0),
           (''days_valid'', JNum days_valid)]"

definition saveEditButton_click :: "env \<Rightarrow> page \<Rightarrow> page" where
  "saveEditButton_click e s =
     (let s0 = clearMessages s;
          shareId = editShareIdInput s0;
          video_name = editVideoNameInput s0;
          days_valid = parseInt10 (editDaysValidInput s0)
      in case days_valid of
           None \<Rightarrow> s0\<lparr>editError := ''Please fill in all fields correctly.''\<rparr>
         | Some dv \<Rightarrow>
             if video_name = [] then s0\<lparr>editError := ''Please fill in all fields correctly.''\<rparr>
             else
               (case apiRequest e (''/edit_share/'' @ shareId) ''PUT'' (updatedData video_name dv)
                       True s0 of
                  (s1, Inr r) \<Rightarrow> fetchSharedVideos e (s1\<lparr>editModal_display := ''none''\<rparr>)
                | (s1, Inl err) \<Rightarrow>
                    s1\<lparr>editError := ''Failed to update share: '' @ message err\<rparr>))"

text \<open>
  What \<^verbatim>\<open>getAttribute\<close> may return for an attribute of an element with the given
  attributes: \<^verbatim>\<open>null\<close> when the attribute is missing; the text with its references
  replaced when \<open>decode_refs\<close> covers them; some string otherwise.
\<close>

definition reads_attribute :: "attributes \<Rightarrow> string \<Rightarrow> string option \<Rightarrow> bool" where
  "reads_attribute as k r =
     (case map_of as k of
        None \<Rightarrow> r = None
      | Some raw \<Rightarrow> if modelled_refs raw then r = Some (decode_refs raw) else r \<noteq> None)"

text \<open>The click handler's target, read off an element with the given attributes.\<close>

definition reads_button :: "attributes \<Rightarrow> edit_button \<Rightarrow> bool" where
  "reads_button as target =
     (reads_attribute as ''data-share-id'' (data_share_id target) \<and>
      reads_attribute as ''data-video-name'' (data_video_name target) \<and>
      reads_attribute as ''data-days-valid'' (data_days_valid target))"

text \<open>
  The records whose fields leave the row's markup as the template lays it out: the
  fields that \<open>row_html\<close> inserts unescaped open no tag, and the share id, the URL and
  the name stay inside the quotation marks of their attributes.
\<close>

definition row_fields_plain :: "env \<Rightarrow> jsval \<Rightarrow> bool" where
  "row_fields_plain e video =
     (text_safe (js_to_string (read_prop video ''share_id'')) \<and>
      text_safe (js_to_string (read_prop video ''stash_video_id'')) \<and>
      text_safe (toLocaleString e (read_prop video ''expires_at'')) \<and>
      text_safe (js_to_string (read_prop video ''hits'')) \<and>
      text_safe (js_to_string (read_prop video ''share_url'')) \<and>
      value_safe (js_to_string (read_prop video ''share_id'')) \<and>
      value_safe (js_to_string (read_prop video ''share_url'')) \<and>
      value_safe (js_to_string (read_prop video ''video_name'')))"

section \<open>The static admin script\<close>

text \<open>
  \<^verbatim>\<open>static/admin.js\<close> keeps its token in a global variable and calls \<^verbatim>\<open>fetch\<close> itself.
  Of its page the model keeps the token, the create form's three fields, the rows of the
  videos table and the network traffic; the two counters of total shares and hits are
  left out.
\<close>

record static_page =
  token :: jsval
  video_name_field :: string
  stash_video_id_field :: string
  days_valid_field :: string
  videos_table :: "string list"
  traffic :: "event list"

definition sq :: string where
  "sq = [CHR 0x27]"

definition static_row_html :: "env \<Rightarrow> jsval \<Rightarrow> js_error + string" where
  \<open>static_row_html e v =
     (case get_prop v ''hits'' of
        Inl err \<Rightarrow> Inl err
      | Inr hits \<Rightarrow>
          Inr (concat
            [nl, ''                <td>'', js_to_string (read_prop v ''share_id''), ''</td>'',
             nl, ''                <td>'', js_to_string (read_prop v ''video_name''), ''</td>'',
             nl, ''                <td>'', js_to_string (read_prop v ''stash_video_id''), ''</td>'',
             nl, ''                <td>'', toLocaleString e (read_prop v ''expires_at''), ''</td>'',
             nl, ''                <td>'', js_to_string (read_prop v ''hits''), ''</td>'',
             nl, ''                <td>'',
             nl, ''                    <button class="btn btn-sm btn-warning" onclick="editVideo('', sq,
                 js_to_string (read_prop v ''share_id''), sq, '')">Edit</button>'',
             nl, ''                    <button class="btn btn-sm btn-danger" onclick="deleteVideo('', sq,
                 js_to_string (read_prop v ''share_id''), sq, '')">Delete</button>'',
             nl, ''                </td>'',
             nl, ''            '']))\<close>

text \<open>The rows appended by \<^verbatim>\<open>videos.forEach\<close> until an entry throws.\<close>

fun static_rows :: "env \<Rightarrow> jsval list \<Rightarrow> string list" where
  "static_rows e [] = []"
| "static_rows e (v # vs) =
     (case static_row_html e v of Inl err \<Rightarrow> [] | Inr r \<Rightarrow> r # static_rows e vs)"

definition loadVideos_options :: "jsval \<Rightarrow> request" where
  "loadVideos_options tok =
     \<lparr>req_url = ''/shared_videos'', req_method = ''GET'',
      req_headers = [(''Authorization'', ''Bearer '' @ js_to_string tok)],
      req_body = None\<rparr>"

definition loadVideos :: "env \<Rightarrow> static_page \<Rightarrow> static_page" where
  "loadVideos e s =
     (let options = loadVideos_options (token s);
          result = fetch e (traffic s) options;
          s1 = s\<lparr>traffic := traffic s @ [Sent options, Received result]\<rparr>
      in case result of
           Rejected err \<Rightarrow> s1
         | Resolved r \<Rightarrow>
             if \<not> response_ok r then s1
             else
               (case json r of
                  Inl err \<Rightarrow> s1
                | Inr videos \<Rightarrow>
                    (case videos of
                       JArr vs \<Rightarrow> s1\<lparr>videos_table := static_rows e vs\<rparr>
                     | _ \<Rightarrow> s1\<lparr>videos_table := []\<rparr>)))"

definition share_options :: "static_page \<Rightarrow> request" where
  "share_options s =
     \<lparr>req_url = ''/share'', req_method = ''POST'',
      req_headers = [(''Content-Type'', ''application/json''),
                     (''Authorization'', ''Bearer '' @ js_to_string (token s))],
      req_body = Some (JObj [(''video_name'', JStr (video_name_field s)),
                             (''stash_video_id'', JStr (stash_video_id_field s)),
                             (''days_valid'', JStr (days_valid_field s))])\<rparr>"

definition static_share_submit :: "env \<Rightarrow> static_page \<Rightarrow> static_page" where
  "static_share_submit e s =
     (let options = share_options s;
          result = fetch e (traffic s) options;
          s1 = s\<lparr>traffic := traffic s @ [Sent options, Received result]\<rparr>
      in case result of
           Rejected err \<Rightarrow> s1
         | Resolved r \<Rightarrow>
             if response_ok r then
               (loadVideos e s1)
                 \<lparr>video_name_field := videoName_default e,
                  stash_video_id_field := stashId_default e,
                  days_valid_field := daysValid_default e\<rparr>
             else s1)"

section \<open>Observations on a run\<close>

text \<open>The traffic a handler added, given the page before and after it.\<close>

definition new_events :: "page \<Rightarrow> page \<Rightarrow> event list" where
  "new_events s s' = drop (length (trace s)) (trace s')"

definition logged_out :: "page \<Rightarrow> bool" where
  "logged_out s =
     (authToken s = JNull \<and> stored_token s = None \<and>
      loginSection_display s = ''block'' \<and> adminContent_display s = ''none'')"

fun is_401 :: "event \<Rightarrow> bool" where
  "is_401 (Received (Resolved r)) = (status r = 401)"
| "is_401 ev = False"

definition got_401 :: "page \<Rightarrow> page \<Rightarrow> bool" where
  "got_401 s s' = list_ex is_401 (new_events s s')"

text \<open>The request an authenticated \<open>apiRequest\<close> hands to \<^verbatim>\<open>fetch\<close>.\<close>

definition api_options :: "string \<Rightarrow> string \<Rightarrow> jsval \<Rightarrow> jsval \<Rightarrow> request" where
  "api_options url method body tok =
     \<lparr>req_url = url, req_method = method, req_headers = auth_headers True tok,
      req_body = (if js_truthy body then Some body else None)\<rparr>"

text \<open>
  The traffic of one authenticated \<open>apiRequest\<close> from page \<open>s\<close>: the request and
  its answer, or nothing when the token is missing.
\<close>

definition request_events :: "env \<Rightarrow> string \<Rightarrow> string \<Rightarrow> jsval \<Rightarrow> page \<Rightarrow> event list" where
  "request_events e url method body s =
     (if js_truthy (authToken s) then
        [Sent (api_options url method body (authToken s)),
         Received (fetch e (trace s) (api_options url method body (authToken s)))]
      else [])"

definition refresh_events :: "env \<Rightarrow> page \<Rightarrow> event list" where
  "refresh_events e s = request_events e ''/shared_videos'' ''GET'' JNull s"

text \<open>
  The shapes of traffic in which a list refresh comes only after the operation's own
  request has been answered with success: nothing; the operation's request and its
  answer; or these followed by the refresh and its answer.
\<close>

fun refresh_follows_success :: "string \<Rightarrow> event list \<Rightarrow> bool" where
  "refresh_follows_success m [] = True"
| "refresh_follows_success m [Sent op, Received r] = (req_method op = m)"
| "refresh_follows_success m [Sent op, Received (Resolved r), Sent refresh, Received r'] =
     (req_method op = m \<and> response_ok r \<and>
      req_url refresh = ''/shared_videos'' \<and> req_method refresh = ''GET'')"
| "refresh_follows_success m evs = False"

fun put_requests :: "event list \<Rightarrow> request list" where
  "put_requests [] = []"
| "put_requests (Sent r # evs) =
     (if req_method r = ''PUT'' then r # put_requests evs else put_requests evs)"
| "put_requests (ev # evs) = put_requests evs"

text \<open>The local validation of the create form and of the edit form.\<close>

definition share_fields_valid :: "page \<Rightarrow> bool" where
  "share_fields_valid s =
     (videoNameInput s \<noteq> [] \<and> parseInt10 (stashIdInput s) \<noteq> None \<and>
      parseInt10 (daysValidInput s) \<noteq> None)"

definition edit_fields_valid :: "page \<Rightarrow> bool" where
  "edit_fields_valid s =
     (editVideoNameInput s \<noteq> [] \<and> parseInt10 (editDaysValidInput s) \<noteq> None)"

text \<open>Whether a text occurs in a markup string.\<close>

fun occurs_in :: "string \<Rightarrow> string \<Rightarrow> bool" where
  "occurs_in p [] = (p = [])"
| "occurs_in p (c # cs) = (take (length p) (c # cs) = p \<or> occurs_in p cs)"

section \<open>Example environments and pages\<close>

definition answering :: "(request \<Rightarrow> fetch_result) \<Rightarrow> env" where
  "answering f =
     \<lparr>fetch = (\<lambda>history. f), clock = 1000,
      date_value = (\<lambda>v. case v of JNum t \<Rightarrow> Some t | _ \<Rightarrow> None),
      toLocaleString = js_to_string, confirm = (\<lambda>question. True),
      stashId_default = [], videoName_default = [], daysValid_default = ''7''\<rparr>"

definition json_response :: "nat \<Rightarrow> jsval \<Rightarrow> fetch_result" where
  "json_response code v = Resolved \<lparr>status = code, content_length = None, json = Inr v\<rparr>"

definition page_with :: "jsval \<Rightarrow> string \<Rightarrow> string \<Rightarrow> string \<Rightarrow> page" where
  "page_with tok stashId videoName daysValid =
     \<lparr>authToken = tok, stored_token = (case tok of JStr t \<Rightarrow> Some t | _ \<Rightarrow> None),
      loginSection_display = ''none'', adminContent_display = ''block'',
      loginError = [], shareMessage = [], shareError = [], editError = [],
      stashIdInput = stashId, videoNameInput = videoName, daysValidInput = daysValid,
      editShareIdInput = stashId, editVideoNameInput = videoName, editDaysValidInput = daysValid,
      editModal_display = ''none'', tableBody = Rows [], trace = [], alerts = []\<rparr>"

definition static_page_with :: "jsval \<Rightarrow> string \<Rightarrow> string \<Rightarrow> string \<Rightarrow> static_page" where
  "static_page_with tok stashId videoName daysValid =
     \<lparr>token = tok, video_name_field = videoName, stash_video_id_field = stashId,
      days_valid_field = daysValid, videos_table = [], traffic = []\<rparr>"

definition share_record :: "string \<Rightarrow> string \<Rightarrow> int \<Rightarrow> jsval" where
  "share_record share_id video_name expires_at =
     JObj [(''share_id'', JStr share_id), (''video_name'', JStr video_name),
           (''stash_video_id'', JNum 42), (''expires_at'', JNum expires_at),
           (''hits'', JNum 0), (''share_url'', JStr (''/share/'' @ share_id))]"

definition failed_to_fetch :: "request \<Rightarrow> fetch_result" where
  "failed_to_fetch r = Rejected (TypeError ''Failed to fetch'')"

section \<open>Lemmas on the platform functions and the gateway\<close>

subsection \<open>Markup\<close>

lemma escape_char_no_angle:
  "CHR ''<'' \<notin> set (escape_char c) \<and> CHR ''>'' \<notin> set (escape_char c)"
  by (simp add: escape_char_def)

lemma escape_char_quote: "CHR 0x22 \<in> set (escape_char c) \<longleftrightarrow> c = CHR 0x22"
  by (auto simp: escape_char_def)

lemma decode_refs_escape_char: "decode_refs (escape_char c @ rest) = c # decode_refs rest"
  by (simp add: escape_char_def)

lemma decode_refs_escape: "decode_refs (concat (map escape_char s)) = s"
  by (induction s) (simp_all add: decode_refs_escape_char del: decode_refs.simps(2))

lemma escapeHTML_quote: "CHR 0x22 \<in> set (escapeHTML v) \<longleftrightarrow> CHR 0x22 \<in> set (js_to_string v)"
  by (simp add: escapeHTML_def escape_char_quote)

lemma decode_refs_escapeHTML: "decode_refs (escapeHTML v) = js_to_string v"
  by (simp add: escapeHTML_def decode_refs_escape)

subsection \<open>Numbers\<close>

lemma digit_nth:
  assumes "d < 10"
  shows "is_digit (''0123456789'' ! d) \<and> digit_val (''0123456789'' ! d) = d"
proof -
  from assms have "d \<in> {0,1,2,3,4,5,6,7,8,9}" by auto
  then show ?thesis
    by (auto simp: is_digit_def digit_val_def)
qed

lemma show_nat_digits:
  "list_all is_digit (show_nat n) \<and> show_nat n \<noteq> [] \<and> digits_value 10 (show_nat n) = n"
proof (induction n rule: show_nat.induct)
  case (1 n)
  show ?case
  proof (cases "n < 10")
    case True
    then show ?thesis
      using digit_nth [of n] by (subst (1 2 3) show_nat.simps) (simp add: digits_value_def)
  next
    case False
    then have ih: "list_all is_digit (show_nat (n div 10))"
        "digits_value 10 (show_nat (n div 10)) = n div 10"
      using 1 by simp_all
    have d: "is_digit (''0123456789'' ! (n mod 10))"
        "digit_val (''0123456789'' ! (n mod 10)) = n mod 10"
      using digit_nth [of "n mod 10"] by simp_all
    show ?thesis
      using False ih d
      by (subst (1 2 3) show_nat.simps) (simp add: digits_value_def)
  qed
qed

lemma is_digit_plain: "is_digit c \<Longrightarrow> \<not> is_ws c \<and> c \<noteq> CHR ''-'' \<and> c \<noteq> CHR ''+'' \<and> c \<noteq> CHR ''x'' \<and> c \<noteq> CHR ''X''"
  by (auto simp: is_digit_def is_ws_def)

lemma strip_sign_digits:
  assumes "list_all is_digit ds"
  shows "strip_sign ds = (False, ds)"
proof (cases ds)
  case Nil
  then show ?thesis by (simp add: strip_sign_def)
next
  case (Cons c r)
  with assms have "is_digit c" by simp
  then show ?thesis
    using Cons is_digit_plain [of c] by (simp add: strip_sign_def)
qed

lemma take2_digits:
  assumes "list_all is_digit ds"
  shows "take 2 ds \<noteq> ''0x'' \<and> take 2 ds \<noteq> ''0X''"
proof (cases ds)
  case Nil
  then show ?thesis by simp
next
  case outer: (Cons c r)
  show ?thesis
  proof (cases r)
    case Nil
    with outer show ?thesis by simp
  next
    case (Cons d r')
    with outer assms have "is_digit d" by simp
    then show ?thesis
      using outer Cons is_digit_plain [of d] by auto
  qed
qed

lemma takeWhile_digits: "list_all is_digit ds \<Longrightarrow> takeWhile is_digit ds = ds"
  by (induction ds) simp_all

lemma parseInt_digits:
  assumes "list_all is_digit ds" and "ds \<noteq> []"
  shows "parseInt ds = Some (int (digits_value 10 ds))"
  using assms take2_digits [OF assms(1)]
  by (simp add: parseInt_def strip_sign_digits takeWhile_digits signed_def)

lemma parseInt_show_int: "0 \<le> n \<Longrightarrow> parseInt (show_int n) = Some n"
  using show_nat_digits [of "nat n"]
  by (simp add: show_int_def parseInt_digits)

lemma parseInt_NaN: "parseInt ''NaN'' = None"
  by (simp add: parseInt_def strip_sign_def is_ws_def is_digit_def)

subsection \<open>Days remaining\<close>

lemma ceil_div_unique:
  assumes "0 < b" and "(k - 1) * b < a" and "a \<le> k * b"
  shows "ceil_div a b = k"
proof -
  define r where "r = k * b - a"
  have r: "0 \<le> r" "r < b" using assms by (simp_all add: r_def algebra_simps)
  have "- a = b * (- k) + r" by (simp add: r_def algebra_simps)
  then have "(- a) div b = - k"
    using r assms(1) by (intro int_div_pos_eq)
  then show ?thesis by (simp add: ceil_div_def)
qed

lemma ceil_div_bounds:
  assumes "0 < b"
  shows "(ceil_div a b - 1) * b < a \<and> a \<le> ceil_div a b * b"
proof -
  define q where "q = (- a) div b"
  define r where "r = (- a) mod b"
  have "- a = b * q + r"
    unfolding q_def r_def by simp
  then have eq: "a = - (b * q) - r" by linarith
  have r: "0 \<le> r" "r < b" using assms by (simp_all add: r_def)
  have c: "ceil_div a b = - q" by (simp add: ceil_div_def q_def)
  have "(- q - 1) * b = - (b * q) - b" by (simp add: algebra_simps)
  moreover have "- q * b = - (b * q)" by simp
  ultimately show ?thesis
    using eq r unfolding c by linarith
qed

lemma ceil_div_nonpos: "0 < b \<Longrightarrow> a \<le> 0 \<Longrightarrow> ceil_div a b \<le> 0"
  by (simp add: ceil_div_def pos_imp_zdiv_nonneg_iff)

lemma ms_per_day_pos: "0 < ms_per_day"
  by (simp add: ms_per_day_def)

subsection \<open>The request gateway\<close>

lemma apiRequest_guard:
  "\<not> js_truthy (authToken s) \<Longrightarrow>
   apiRequest e url m b True s = (showLogin s, Inl (Error ''Not authenticated''))"
  by (simp add: apiRequest_def)

lemma apiRequest_sent:
  assumes "js_truthy (authToken s)"
  shows "apiRequest e url m b True s =
     (case fetch e (trace s) (api_options url m b (authToken s)) of
        Rejected err \<Rightarrow>
          (s\<lparr>trace := trace s @ [Sent (api_options url m b (authToken s)),
                                   Received (Rejected err)]\<rparr>, Inl err)
      | Resolved r \<Rightarrow>
          handle_response True r
            (s\<lparr>trace := trace s @ [Sent (api_options url m b (authToken s)),
                                    Received (Resolved r)]\<rparr>))"
  using assms by (simp add: apiRequest_def api_options_def Let_def split: fetch_result.splits)

lemma handle_response_Inr:
  assumes "handle_response True r s = (s1, Inr v)"
  shows "s1 = s \<and> response_ok r \<and> status r \<noteq> 401"
  using assms
  by (auto simp: handle_response_def Let_def split: if_splits sum.splits)

lemma handle_response_Inl:
  assumes "handle_response True r s = (s1, Inl err)"
  shows "(status r = 401 \<and> s1 = showLogin s) \<or> (status r \<noteq> 401 \<and> s1 = s)"
  using assms
  by (auto simp: handle_response_def Let_def split: if_splits sum.splits)

text \<open>A successful authenticated call: what was sent, and that the answer was a success.\<close>

lemma apiRequest_Inr:
  assumes "apiRequest e url m b True s = (s1, Inr v)"
  shows "js_truthy (authToken s) \<and>
    (\<exists>r. fetch e (trace s) (api_options url m b (authToken s)) = Resolved r \<and>
         response_ok r \<and> status r \<noteq> 401 \<and>
         s1 = s\<lparr>trace := trace s @ [Sent (api_options url m b (authToken s)),
                                     Received (Resolved r)]\<rparr>)"
proof -
  have tok: "js_truthy (authToken s)"
    using assms by (auto simp: apiRequest_def split: if_splits)
  show ?thesis
  proof (cases "fetch e (trace s) (api_options url m b (authToken s))")
    case (Rejected err)
    then show ?thesis using assms tok by (simp add: apiRequest_sent)
  next
    case (Resolved r)
    let ?s' = "s\<lparr>trace := trace s @ [Sent (api_options url m b (authToken s)),
                                     Received (Resolved r)]\<rparr>"
    have "handle_response True r ?s' = (s1, Inr v)"
      using assms tok Resolved by (simp add: apiRequest_sent)
    from handle_response_Inr [OF this] show ?thesis
      using tok Resolved by auto
  qed
qed

text \<open>A failed authenticated call: the guard, a rejected fetch, a 401, or another failure.\<close>

lemma apiRequest_Inl:
  assumes "apiRequest e url m b True s = (s1, Inl err)"
  shows "(\<not> js_truthy (authToken s) \<and> s1 = showLogin s) \<or>
    (js_truthy (authToken s) \<and>
      (\<exists>res. fetch e (trace s) (api_options url m b (authToken s)) = res \<and>
         (let s' = s\<lparr>trace := trace s @ [Sent (api_options url m b (authToken s)), Received res]\<rparr>
          in if is_401 (Received res) then s1 = showLogin s' else s1 = s')))"
proof (cases "js_truthy (authToken s)")
  case False
  then show ?thesis using assms by (simp add: apiRequest_guard)
next
  case True
  show ?thesis
  proof (cases "fetch e (trace s) (api_options url m b (authToken s))")
    case (Rejected x)
    then show ?thesis using assms True by (auto simp: apiRequest_sent)
  next
    case (Resolved r)
    let ?s' = "s\<lparr>trace := trace s @ [Sent (api_options url m b (authToken s)),
                                     Received (Resolved r)]\<rparr>"
    have "handle_response True r ?s' = (s1, Inl err)"
      using assms True Resolved by (simp add: apiRequest_sent)
    from handle_response_Inl [OF this] show ?thesis
      using True Resolved by (auto simp: Let_def)
  qed
qed

subsection \<open>Traffic and frame of a request\<close>

lemma api_trace:
  assumes "apiRequest e url m b True s = (s1, res)"
  shows "trace s1 = trace s @ request_events e url m b s"
proof (cases res)
  case (Inl err)
  with apiRequest_Inl [of e url m b s s1 err] assms show ?thesis
    by (auto simp: request_events_def showLogin_def Let_def split: if_splits)
next
  case (Inr v)
  with apiRequest_Inr [of e url m b s s1 v] assms show ?thesis
    by (auto simp: request_events_def)
qed

lemma api_frame:
  assumes "apiRequest e url m b True s = (s1, res)"
  shows "loginError s1 = loginError s \<and> shareMessage s1 = shareMessage s \<and>
    shareError s1 = shareError s \<and> editError s1 = editError s \<and>
    stashIdInput s1 = stashIdInput s \<and> videoNameInput s1 = videoNameInput s \<and>
    daysValidInput s1 = daysValidInput s \<and> editShareIdInput s1 = editShareIdInput s \<and>
    editVideoNameInput s1 = editVideoNameInput s \<and>
    editDaysValidInput s1 = editDaysValidInput s \<and>
    editModal_display s1 = editModal_display s \<and> tableBody s1 = tableBody s \<and>
    alerts s1 = alerts s"
proof (cases res)
  case (Inl err)
  with apiRequest_Inl [of e url m b s s1 err] assms show ?thesis
    by (auto simp: showLogin_def Let_def split: if_splits)
next
  case (Inr v)
  with apiRequest_Inr [of e url m b s s1 v] assms show ?thesis
    by auto
qed

lemma api_401:
  assumes "apiRequest e url m b True s = (s1, res)"
    and "list_ex is_401 (request_events e url m b s)"
  shows "logged_out s1 \<and> res = Inl (Error ''Authentication failed'')"
proof -
  from assms(2) have tok: "js_truthy (authToken s)"
    by (auto simp: request_events_def split: if_splits)
  from assms(2) tok obtain r where r: "fetch e (trace s) (api_options url m b (authToken s)) = Resolved r"
    "status r = 401"
    by (cases "fetch e (trace s) (api_options url m b (authToken s))")
       (auto simp: request_events_def)
  show ?thesis
    using assms(1) tok r
    by (auto simp: apiRequest_sent handle_response_def logged_out_def showLogin_def)
qed

lemma api_ok:
  assumes "apiRequest e url m b True s = (s1, Inr v)"
  shows "authToken s1 = authToken s \<and> js_truthy (authToken s) \<and>
    stored_token s1 = stored_token s \<and>
    loginSection_display s1 = loginSection_display s \<and>
    adminContent_display s1 = adminContent_display s \<and>
    (\<exists>r. request_events e url m b s =
           [Sent (api_options url m b (authToken s)), Received (Resolved r)] \<and>
         response_ok r \<and> status r \<noteq> 401)"
  using apiRequest_Inr [OF assms] by (auto simp: request_events_def)

lemma api_guard:
  assumes "\<not> js_truthy (authToken s)"
  shows "request_events e url m b s = []"
  using assms by (simp add: request_events_def)

lemma logged_out_showLogin: "logged_out (showLogin s)"
  by (simp add: logged_out_def showLogin_def)

text \<open>The list refresh.\<close>

lemma fsv_shape:
  "\<exists>body. fetchSharedVideos e s =
     (fst (apiRequest e ''/shared_videos'' ''GET'' JNull True s))\<lparr>tableBody := body\<rparr>"
  by (auto simp: fetchSharedVideos_def split: prod.splits sum.splits)

lemma fsv_trace: "trace (fetchSharedVideos e s) = trace s @ refresh_events e s"
proof -
  obtain s1 res where a: "apiRequest e ''/shared_videos'' ''GET'' JNull True s = (s1, res)"
    by (cases "apiRequest e ''/shared_videos'' ''GET'' JNull True s")
  from fsv_shape [of e s] obtain body where "fetchSharedVideos e s = s1\<lparr>tableBody := body\<rparr>"
    using a by auto
  then show ?thesis using api_trace [OF a] by (simp add: refresh_events_def)
qed

lemma fsv_frame:
  "loginError (fetchSharedVideos e s) = loginError s \<and>
   shareMessage (fetchSharedVideos e s) = shareMessage s \<and>
   shareError (fetchSharedVideos e s) = shareError s \<and>
   editError (fetchSharedVideos e s) = editError s \<and>
   stashIdInput (fetchSharedVideos e s) = stashIdInput s \<and>
   videoNameInput (fetchSharedVideos e s) = videoNameInput s \<and>
   daysValidInput (fetchSharedVideos e s) = daysValidInput s \<and>
   editShareIdInput (fetchSharedVideos e s) = editShareIdInput s \<and>
   editVideoNameInput (fetchSharedVideos e s) = editVideoNameInput s \<and>
   editDaysValidInput (fetchSharedVideos e s) = editDaysValidInput s \<and>
   editModal_display (fetchSharedVideos e s) = editModal_display s \<and>
   alerts (fetchSharedVideos e s) = alerts s"
proof -
  obtain s1 res where a: "apiRequest e ''/shared_videos'' ''GET'' JNull True s = (s1, res)"
    by (cases "apiRequest e ''/shared_videos'' ''GET'' JNull True s")
  from fsv_shape [of e s] obtain body where "fetchSharedVideos e s = s1\<lparr>tableBody := body\<rparr>"
    using a by auto
  then show ?thesis using api_frame [OF a] by simp
qed

lemma fsv_401:
  assumes "list_ex is_401 (refresh_events e s)"
  shows "logged_out (fetchSharedVideos e s)"
proof -
  obtain s1 res where a: "apiRequest e ''/shared_videos'' ''GET'' JNull True s = (s1, res)"
    by (cases "apiRequest e ''/shared_videos'' ''GET'' JNull True s")
  from fsv_shape [of e s] obtain body where "fetchSharedVideos e s = s1\<lparr>tableBody := body\<rparr>"
    using a by auto
  then show ?thesis
    using api_401 [OF a] assms by (simp add: refresh_events_def logged_out_def)
qed

lemma fsv_guard:
  assumes "\<not> js_truthy (authToken s)"
  shows "fetchSharedVideos e s = (showLogin s)\<lparr>tableBody := InnerHTML load_failed_html\<rparr>"
  using assms by (simp add: fetchSharedVideos_def apiRequest_guard)

section \<open>Days remaining\<close>

text \<open>
  C6. For an expiry that is a valid date, \<open>calculateDaysRemaining\<close> returns a number
  that is never negative: it is 0 for every expiry that is not in the future, it is 3 for
  an expiry more than two and at most three days ahead, and in general for a future
  expiry it is the number of started days between now and the expiry.
\<close>

theorem calculateDaysRemaining_clamped:
  assumes "date_value e expiresAt = Some t"
  shows "\<exists>n. calculateDaysRemaining e expiresAt = Some n \<and> 0 \<le> n \<and>
    (t \<le> clock e \<longrightarrow> n = 0) \<and>
    (clock e + 2 * ms_per_day < t \<and> t \<le> clock e + 3 * ms_per_day \<longrightarrow> n = 3) \<and>
    (clock e < t \<longrightarrow> (n - 1) * ms_per_day < t - clock e \<and> t - clock e \<le> n * ms_per_day)"
proof -
  let ?d = "t - clock e"
  let ?n = "max 0 (ceil_div ?d ms_per_day)"
  have val: "calculateDaysRemaining e expiresAt = Some ?n"
    using assms by (simp add: calculateDaysRemaining_def Let_def)
  have past: "?n = 0" if "t \<le> clock e"
    using that ceil_div_nonpos [OF ms_per_day_pos, of ?d] by simp
  have three: "?n = 3" if "clock e + 2 * ms_per_day < t \<and> t \<le> clock e + 3 * ms_per_day"
  proof -
    have "ceil_div ?d ms_per_day = 3"
      using that by (intro ceil_div_unique [OF ms_per_day_pos]) simp_all
    then show ?thesis by simp
  qed
  have future: "(?n - 1) * ms_per_day < ?d \<and> ?d \<le> ?n * ms_per_day" if "clock e < t"
  proof -
    have b: "(ceil_div ?d ms_per_day - 1) * ms_per_day < ?d" "?d \<le> ceil_div ?d ms_per_day * ms_per_day"
      using ceil_div_bounds [OF ms_per_day_pos, of ?d] by simp_all
    have "0 < ceil_div ?d ms_per_day * ms_per_day" using b(2) that by linarith
    then have "0 < ceil_div ?d ms_per_day"
      using ms_per_day_pos by (simp add: zero_less_mult_iff)
    then have "?n = ceil_div ?d ms_per_day" by simp
    then show ?thesis using b by simp
  qed
  show ?thesis
    using val past three future by (intro exI [of _ ?n]) simp
qed

theorem calculateDaysRemaining_clamped_witness:
  "date_value (answering failed_to_fetch) (JNum 259201000) = Some 259201000 \<and>
   calculateDaysRemaining (answering failed_to_fetch) (JNum 259201000) = Some 3"
proof -
  have h: "date_value (answering failed_to_fetch) (JNum 259201000) = Some 259201000"
    by (simp add: answering_def)
  have c: "clock (answering failed_to_fetch) = 1000"
    by (simp add: answering_def)
  from calculateDaysRemaining_clamped [OF h] show ?thesis
    using h by (auto simp: c ms_per_day_def)
qed

section \<open>The token guard\<close>

lemma clearMessages_frame:
  "trace (clearMessages s) = trace s \<and> authToken (clearMessages s) = authToken s \<and>
   stored_token (clearMessages s) = stored_token s \<and>
   loginSection_display (clearMessages s) = loginSection_display s \<and>
   adminContent_display (clearMessages s) = adminContent_display s \<and>
   stashIdInput (clearMessages s) = stashIdInput s \<and>
   videoNameInput (clearMessages s) = videoNameInput s \<and>
   daysValidInput (clearMessages s) = daysValidInput s \<and>
   editShareIdInput (clearMessages s) = editShareIdInput s \<and>
   editVideoNameInput (clearMessages s) = editVideoNameInput s \<and>
   editDaysValidInput (clearMessages s) = editDaysValidInput s \<and>
   editModal_display (clearMessages s) = editModal_display s \<and>
   tableBody (clearMessages s) = tableBody s \<and> alerts (clearMessages s) = alerts s"
  by (simp add: clearMessages_def)

lemma showLogin_trace: "trace (showLogin s) = trace s"
  by (simp add: showLogin_def)

lemma new_events_append: "trace s' = trace s @ evs \<Longrightarrow> new_events s s' = evs"
  by (simp add: new_events_def)

text \<open>The four handlers without a token.\<close>

lemma shareForm_submit_guard:
  assumes "\<not> js_truthy (authToken s)"
  shows "trace (shareForm_submit e s) = trace s \<and>
    (share_fields_valid s \<longrightarrow>
       shareForm_submit e s =
         (showLogin (clearMessages s))\<lparr>shareError := ''Failed to share video: Not authenticated''\<rparr>)"
proof -
  have tok: "\<not> js_truthy (authToken (clearMessages s))"
    using assms by (simp add: clearMessages_frame)
  show ?thesis
    by (auto simp: shareForm_submit_def Let_def apiRequest_guard [OF tok] clearMessages_frame
          showLogin_trace share_fields_valid_def split: option.splits)
qed

lemma saveEditButton_click_guard:
  assumes "\<not> js_truthy (authToken s)"
  shows "trace (saveEditButton_click e s) = trace s \<and>
    (edit_fields_valid s \<longrightarrow>
       saveEditButton_click e s =
         (showLogin (clearMessages s))\<lparr>editError := ''Failed to update share: Not authenticated''\<rparr>)"
proof -
  have tok: "\<not> js_truthy (authToken (clearMessages s))"
    using assms by (simp add: clearMessages_frame)
  show ?thesis
    by (auto simp: saveEditButton_click_def Let_def apiRequest_guard [OF tok] clearMessages_frame
          showLogin_trace edit_fields_valid_def split: option.splits)
qed

lemma deleteButton_click_guard:
  assumes "\<not> js_truthy (authToken s)"
  shows "trace (deleteButton_click e target s) = trace s \<and>
    (confirm e (''Are you sure you want to delete share '' @ attr_string target @ ''?'') \<longrightarrow>
       deleteButton_click e target s =
         (showLogin s)\<lparr>alerts := alerts s @ [''Failed to delete share: Not authenticated'']\<rparr>)"
  by (auto simp: deleteButton_click_def Let_def apiRequest_guard [OF assms] showLogin_trace
        showLogin_def)

lemma lookupTitleButton_click_guard:
  assumes "\<not> js_truthy (authToken s)"
  shows "trace (lookupTitleButton_click e s) = trace s \<and>
    (stashIdInput s \<noteq> [] \<longrightarrow>
       lookupTitleButton_click e s =
         (showLogin (clearMessages s))
           \<lparr>shareError := ''Error looking up title: Not authenticated'', videoNameInput := []\<rparr>)"
proof -
  have tok: "\<not> js_truthy (authToken (clearMessages s))"
    using assms by (simp add: clearMessages_frame)
  show ?thesis
    by (auto simp: lookupTitleButton_click_def Let_def apiRequest_guard [OF tok]
          clearMessages_frame showLogin_trace)
qed

lemma loadVideos_traffic:
  "traffic (loadVideos e l) =
     traffic l @ [Sent (loadVideos_options (token l)),
                  Received (fetch e (traffic l) (loadVideos_options (token l)))]"
  by (simp add: loadVideos_def Let_def split: fetch_result.splits sum.splits jsval.splits)

text \<open>
  C1, as amended. In the console script every protected operation (list fetch, create,
  edit, delete, title lookup) goes through \<open>apiRequest\<close> with authentication
  required. When the token is missing (or any other falsy value), \<open>apiRequest\<close>
  sends nothing, switches to the login view, clears the stored token and raises the
  local error \<^verbatim>\<open>Not authenticated\<close>; so none of the five handlers adds any traffic. The
  list fetch always reaches the guard; create and edit reach it when their fields pass
  the local validation, delete when the user confirms, the lookup when an id was
  entered, and each then shows the error in its own place.
\<close>

theorem protected_call_without_token:
  assumes "\<not> js_truthy (authToken s)"
  shows "apiRequest e url m b True s = (showLogin s, Inl (Error ''Not authenticated'')) \<and>
    trace (showLogin s) = trace s \<and> logged_out (showLogin s) \<and>
    fetchSharedVideos e s = (showLogin s)\<lparr>tableBody := InnerHTML load_failed_html\<rparr> \<and>
    trace (fetchSharedVideos e s) = trace s \<and>
    trace (shareForm_submit e s) = trace s \<and>
    (share_fields_valid s \<longrightarrow>
       shareForm_submit e s =
         (showLogin (clearMessages s))\<lparr>shareError := ''Failed to share video: Not authenticated''\<rparr>) \<and>
    trace (saveEditButton_click e s) = trace s \<and>
    (edit_fields_valid s \<longrightarrow>
       saveEditButton_click e s =
         (showLogin (clearMessages s))\<lparr>editError := ''Failed to update share: Not authenticated''\<rparr>) \<and>
    trace (deleteButton_click e target s) = trace s \<and>
    (confirm e (''Are you sure you want to delete share '' @ attr_string target @ ''?'') \<longrightarrow>
       deleteButton_click e target s =
         (showLogin s)\<lparr>alerts := alerts s @ [''Failed to delete share: Not authenticated'']\<rparr>) \<and>
    trace (lookupTitleButton_click e s) = trace s \<and>
    (stashIdInput s \<noteq> [] \<longrightarrow>
       lookupTitleButton_click e s =
         (showLogin (clearMessages s))
           \<lparr>shareError := ''Error looking up title: Not authenticated'', videoNameInput := []\<rparr>)"
proof -
  have "trace (fetchSharedVideos e s) = trace s"
    by (simp add: fsv_guard [OF assms] showLogin_trace)
  then show ?thesis
    using apiRequest_guard [OF assms, of e url m b] fsv_guard [OF assms, of e]
      shareForm_submit_guard [OF assms, of e] saveEditButton_click_guard [OF assms, of e]
      deleteButton_click_guard [OF assms, of e target] lookupTitleButton_click_guard [OF assms, of e]
    by (simp add: showLogin_trace logged_out_showLogin)
qed

lemma parse_12: "parseInt10 ''12'' = Some 12"
  by (simp add: parseInt10_def strip_sign_def is_ws_def is_digit_def digits_value_def
        digit_val_def signed_def)

lemma parse_7: "parseInt10 ''7'' = Some 7"
  by (simp add: parseInt10_def strip_sign_def is_ws_def is_digit_def digits_value_def
        digit_val_def signed_def)

theorem protected_call_without_token_witness:
  "\<not> js_truthy (authToken (page_with JNull ''12'' ''clip'' ''7'')) \<and>
   share_fields_valid (page_with JNull ''12'' ''clip'' ''7'') \<and>
   trace (shareForm_submit (answering failed_to_fetch) (page_with JNull ''12'' ''clip'' ''7'')) = [] \<and>
   shareError (shareForm_submit (answering failed_to_fetch) (page_with JNull ''12'' ''clip'' ''7''))
     = ''Failed to share video: Not authenticated'' \<and>
   loginSection_display
     (shareForm_submit (answering failed_to_fetch) (page_with JNull ''12'' ''clip'' ''7'')) = ''block''"
proof -
  let ?p = "page_with JNull ''12'' ''clip'' ''7''"
  have h: "\<not> js_truthy (authToken ?p)"
    by (simp add: page_with_def)
  have v: "share_fields_valid ?p"
    by (simp add: share_fields_valid_def page_with_def parse_12 parse_7)
  have t: "trace ?p = []"
    by (simp add: page_with_def)
  from protected_call_without_token [OF h, of "answering failed_to_fetch"] v t h
  show ?thesis
    by (simp add: showLogin_def clearMessages_frame)
qed

text \<open>
  The static script has no such guard: with its token still \<^verbatim>\<open>null\<close>,
  \<open>loadVideos\<close> calls \<^verbatim>\<open>fetch\<close> with the header \<^verbatim>\<open>Bearer null\<close>.
\<close>

theorem loadVideos_without_token:
  "traffic (loadVideos (answering failed_to_fetch) (static_page_with JNull [] [] [])) =
     [Sent \<lparr>req_url = ''/shared_videos'', req_method = ''GET'',
            req_headers = [(''Authorization'', ''Bearer null'')], req_body = None\<rparr>,
      Received (Rejected (TypeError ''Failed to fetch''))]"
  by (simp add: loadVideos_def Let_def answering_def failed_to_fetch_def static_page_with_def
        loadVideos_options_def)

section \<open>The handlers, case by case\<close>

lemma shareForm_submit_cases:
  obtains
    (invalid) "\<not> share_fields_valid s"
      "shareForm_submit e s =
         (clearMessages s)\<lparr>shareError := ''Please fill in all fields correctly.''\<rparr>"
  | (failed) sid dv s1 err where "share_fields_valid s"
      "parseInt10 (stashIdInput s) = Some sid" "parseInt10 (daysValidInput s) = Some dv"
      "apiRequest e ''/share'' ''POST'' (shareData (videoNameInput s) sid dv) True
         (clearMessages s) = (s1, Inl err)"
      "shareForm_submit e s = s1\<lparr>shareError := ''Failed to share video: '' @ message err\<rparr>"
  | (no_url) sid dv s1 result err where "share_fields_valid s"
      "parseInt10 (stashIdInput s) = Some sid" "parseInt10 (daysValidInput s) = Some dv"
      "apiRequest e ''/share'' ''POST'' (shareData (videoNameInput s) sid dv) True
         (clearMessages s) = (s1, Inr result)"
      "get_prop result ''share_url'' = Inl err"
      "shareForm_submit e s = s1\<lparr>shareError := ''Failed to share video: '' @ message err\<rparr>"
  | (shared) sid dv s1 result share_url where "share_fields_valid s"
      "parseInt10 (stashIdInput s) = Some sid" "parseInt10 (daysValidInput s) = Some dv"
      "apiRequest e ''/share'' ''POST'' (shareData (videoNameInput s) sid dv) True
         (clearMessages s) = (s1, Inr result)"
      "get_prop result ''share_url'' = Inr share_url"
      "shareForm_submit e s =
         fetchSharedVideos e
           (shareForm_reset e
             (s1\<lparr>shareMessage := ''Video shared successfully! URL: '' @ js_to_string share_url\<rparr>))"
proof (cases "share_fields_valid s")
  case False
  then have "shareForm_submit e s =
      (clearMessages s)\<lparr>shareError := ''Please fill in all fields correctly.''\<rparr>"
    by (auto simp: shareForm_submit_def share_fields_valid_def Let_def clearMessages_frame
          split: option.splits)
  with False show ?thesis by (rule invalid)
next
  case True
  then obtain sid dv where p: "parseInt10 (stashIdInput s) = Some sid"
      "parseInt10 (daysValidInput s) = Some dv" and n: "videoNameInput s \<noteq> []"
    by (auto simp: share_fields_valid_def)
  obtain s1 res where a: "apiRequest e ''/share'' ''POST'' (shareData (videoNameInput s) sid dv)
      True (clearMessages s) = (s1, res)"
    by (cases "apiRequest e ''/share'' ''POST'' (shareData (videoNameInput s) sid dv) True
      (clearMessages s)")
  show ?thesis
  proof (cases res)
    case (Inl err)
    have "shareForm_submit e s = s1\<lparr>shareError := ''Failed to share video: '' @ message err\<rparr>"
      using p n a Inl by (simp add: shareForm_submit_def Let_def clearMessages_frame)
    with True p a Inl show ?thesis by (intro failed) simp_all
  next
    case (Inr result)
    show ?thesis
    proof (cases "get_prop result ''share_url''")
      case (Inl err)
      have "shareForm_submit e s = s1\<lparr>shareError := ''Failed to share video: '' @ message err\<rparr>"
        using p n a Inr Inl by (simp add: shareForm_submit_def Let_def clearMessages_frame)
      with True p a Inr Inl show ?thesis by (intro no_url) simp_all
    next
      case inner: (Inr share_url)
      have "shareForm_submit e s =
         fetchSharedVideos e
           (shareForm_reset e
             (s1\<lparr>shareMessage := ''Video shared successfully! URL: '' @ js_to_string share_url\<rparr>))"
        using p n a Inr inner by (simp add: shareForm_submit_def Let_def clearMessages_frame)
      with True p a Inr inner show ?thesis by (intro shared) simp_all
    qed
  qed
qed

lemma saveEditButton_click_cases:
  obtains
    (invalid) "\<not> edit_fields_valid s"
      "saveEditButton_click e s =
         (clearMessages s)\<lparr>editError := ''Please fill in all fields correctly.''\<rparr>"
  | (failed) dv s1 err where "edit_fields_valid s"
      "parseInt10 (editDaysValidInput s) = Some dv"
      "apiRequest e (''/edit_share/'' @ editShareIdInput s) ''PUT''
         (updatedData (editVideoNameInput s) dv) True (clearMessages s) = (s1, Inl err)"
      "saveEditButton_click e s = s1\<lparr>editError := ''Failed to update share: '' @ message err\<rparr>"
  | (saved) dv s1 r where "edit_fields_valid s"
      "parseInt10 (editDaysValidInput s) = Some dv"
      "apiRequest e (''/edit_share/'' @ editShareIdInput s) ''PUT''
         (updatedData (editVideoNameInput s) dv) True (clearMessages s) = (s1, Inr r)"
      "saveEditButton_click e s = fetchSharedVideos e (s1\<lparr>editModal_display := ''none''\<rparr>)"
proof (cases "edit_fields_valid s")
  case False
  then have "saveEditButton_click e s =
      (clearMessages s)\<lparr>editError := ''Please fill in all fields correctly.''\<rparr>"
    by (auto simp: saveEditButton_click_def edit_fields_valid_def Let_def clearMessages_frame
          split: option.splits)
  with False show ?thesis by (rule invalid)
next
  case True
  then obtain dv where p: "parseInt10 (editDaysValidInput s) = Some dv"
    and n: "editVideoNameInput s \<noteq> []"
    by (auto simp: edit_fields_valid_def)
  obtain s1 res where a: "apiRequest e (''/edit_share/'' @ editShareIdInput s) ''PUT''
         (updatedData (editVideoNameInput s) dv) True (clearMessages s) = (s1, res)"
    by (cases "apiRequest e (''/edit_share/'' @ editShareIdInput s) ''PUT''
         (updatedData (editVideoNameInput s) dv) True (clearMessages s)")
  show ?thesis
  proof (cases res)
    case (Inl err)
    have "saveEditButton_click e s =
        s1\<lparr>editError := ''Failed to update share: '' @ message err\<rparr>"
      using p n a Inl by (simp add: saveEditButton_click_def Let_def clearMessages_frame)
    with True p a Inl show ?thesis by (intro failed) simp_all
  next
    case (Inr r)
    have "saveEditButton_click e s = fetchSharedVideos e (s1\<lparr>editModal_display := ''none''\<rparr>)"
      using p n a Inr by (simp add: saveEditButton_click_def Let_def clearMessages_frame)
    with True p a Inr show ?thesis by (intro saved) simp_all
  qed
qed

lemma deleteButton_click_cases:
  obtains
    (declined)
      "\<not> confirm e (''Are you sure you want to delete share '' @ attr_string target @ ''?'')"
      "deleteButton_click e target s = s"
  | (failed) s1 err where
      "confirm e (''Are you sure you want to delete share '' @ attr_string target @ ''?'')"
      "apiRequest e (''/delete_share/'' @ attr_string target) ''DELETE'' JNull True s = (s1, Inl err)"
      "deleteButton_click e target s =
         s1\<lparr>alerts := alerts s1 @ [''Failed to delete share: '' @ message err]\<rparr>"
  | (deleted) s1 r where
      "confirm e (''Are you sure you want to delete share '' @ attr_string target @ ''?'')"
      "apiRequest e (''/delete_share/'' @ attr_string target) ''DELETE'' JNull True s = (s1, Inr r)"
      "deleteButton_click e target s = fetchSharedVideos e s1"
proof (cases "confirm e (''Are you sure you want to delete share '' @ attr_string target @ ''?'')")
  case False
  then have "deleteButton_click e target s = s"
    by (simp add: deleteButton_click_def Let_def)
  with False show ?thesis by (rule declined)
next
  case True
  obtain s1 res where a: "apiRequest e (''/delete_share/'' @ attr_string target) ''DELETE'' JNull
      True s = (s1, res)"
    by (cases "apiRequest e (''/delete_share/'' @ attr_string target) ''DELETE'' JNull True s")
  show ?thesis
  proof (cases res)
    case (Inl err)
    have "deleteButton_click e target s =
        s1\<lparr>alerts := alerts s1 @ [''Failed to delete share: '' @ message err]\<rparr>"
      using True a Inl by (simp add: deleteButton_click_def Let_def)
    with True a Inl show ?thesis by (intro failed) simp_all
  next
    case (Inr r)
    have "deleteButton_click e target s = fetchSharedVideos e s1"
      using True a Inr by (simp add: deleteButton_click_def Let_def)
    with True a Inr show ?thesis by (intro deleted) simp_all
  qed
qed

lemma lookupTitleButton_click_cases:
  obtains
    (no_id) "stashIdInput s = []"
      "lookupTitleButton_click e s =
         (clearMessages s)\<lparr>shareError := ''Please enter a Stash Video ID.''\<rparr>"
  | (failed) s1 err where "stashIdInput s \<noteq> []"
      "apiRequest e (''/get_video_title/'' @ stashIdInput s) ''GET'' JNull True (clearMessages s)
         = (s1, Inl err)"
      "lookupTitleButton_click e s =
         s1\<lparr>shareError := ''Error looking up title: '' @ message err, videoNameInput := []\<rparr>"
  | (no_title) s1 data where "stashIdInput s \<noteq> []"
      "apiRequest e (''/get_video_title/'' @ stashIdInput s) ''GET'' JNull True (clearMessages s)
         = (s1, Inr data)"
      "\<not> (js_truthy data \<and> js_truthy (read_prop data ''title''))"
      "lookupTitleButton_click e s =
         s1\<lparr>shareError := ''Could not find title for this ID.'', videoNameInput := []\<rparr>"
  | (found) s1 data where "stashIdInput s \<noteq> []"
      "apiRequest e (''/get_video_title/'' @ stashIdInput s) ''GET'' JNull True (clearMessages s)
         = (s1, Inr data)"
      "js_truthy data \<and> js_truthy (read_prop data ''title'')"
      "lookupTitleButton_click e s =
         s1\<lparr>videoNameInput := js_to_string (read_prop data ''title'')\<rparr>"
proof (cases "stashIdInput s = []")
  case True
  then have "lookupTitleButton_click e s =
      (clearMessages s)\<lparr>shareError := ''Please enter a Stash Video ID.''\<rparr>"
    by (simp add: lookupTitleButton_click_def Let_def clearMessages_frame)
  with True show ?thesis by (rule no_id)
next
  case False
  obtain s1 res where a: "apiRequest e (''/get_video_title/'' @ stashIdInput s) ''GET'' JNull
      True (clearMessages s) = (s1, res)"
    by (cases "apiRequest e (''/get_video_title/'' @ stashIdInput s) ''GET'' JNull True
      (clearMessages s)")
  show ?thesis
  proof (cases res)
    case (Inl err)
    have "lookupTitleButton_click e s =
        s1\<lparr>shareError := ''Error looking up title: '' @ message err, videoNameInput := []\<rparr>"
      using False a Inl by (simp add: lookupTitleButton_click_def Let_def clearMessages_frame)
    with False a Inl show ?thesis by (intro failed) simp_all
  next
    case (Inr data)
    show ?thesis
    proof (cases "js_truthy data \<and> js_truthy (read_prop data ''title'')")
      case True
      have "lookupTitleButton_click e s =
          s1\<lparr>videoNameInput := js_to_string (read_prop data ''title'')\<rparr>"
        using False a Inr True by (simp add: lookupTitleButton_click_def Let_def clearMessages_frame)
      with False a Inr True show ?thesis by (intro found) simp_all
    next
      case nt: False
      have "lookupTitleButton_click e s =
          s1\<lparr>shareError := ''Could not find title for this ID.'', videoNameInput := []\<rparr>"
        using False a Inr nt by (auto simp: lookupTitleButton_click_def Let_def clearMessages_frame)
      with False a Inr nt show ?thesis by (intro no_title) simp_all
    qed
  qed
qed

section \<open>Forced logout\<close>

lemma got_401_unchanged: "trace s' = trace s \<Longrightarrow> \<not> got_401 s s'"
  by (simp add: got_401_def new_events_def)

lemma got_401_failed:
  assumes "apiRequest e url m b True s0 = (s1, Inl err)"
    and "trace s0 = trace s" and "trace s' = trace s1" and "logged_out s' = logged_out s1"
    and "got_401 s s'"
  shows "logged_out s'"
proof -
  have "trace s' = trace s @ request_events e url m b s0"
    using api_trace [OF assms(1)] assms(2,3) by simp
  then have "list_ex is_401 (request_events e url m b s0)"
    using assms(5) by (simp add: got_401_def new_events_append)
  from api_401 [OF assms(1) this] assms(4) show ?thesis by simp
qed

lemma got_401_answered:
  assumes "apiRequest e url m b True s0 = (s1, Inr v)"
    and "trace s0 = trace s" and "trace s' = trace s1"
  shows "\<not> got_401 s s'"
proof -
  have "trace s' = trace s @ request_events e url m b s0"
    using api_trace [OF assms(1)] assms(2,3) by simp
  then have "new_events s s' = request_events e url m b s0"
    by (rule new_events_append)
  then show ?thesis
    using api_ok [OF assms(1)] by (auto simp: got_401_def)
qed

lemma got_401_refreshed:
  assumes "apiRequest e url m b True s0 = (s1, Inr v)"
    and "trace s0 = trace s" and "trace s2 = trace s1"
    and "got_401 s (fetchSharedVideos e s2)"
  shows "logged_out (fetchSharedVideos e s2)"
proof -
  have "trace (fetchSharedVideos e s2) =
      trace s @ (request_events e url m b s0 @ refresh_events e s2)"
    using api_trace [OF assms(1)] assms(2,3) by (simp add: fsv_trace)
  then have "new_events s (fetchSharedVideos e s2) =
      request_events e url m b s0 @ refresh_events e s2"
    by (rule new_events_append)
  then have "list_ex is_401 (refresh_events e s2)"
    using assms(4) api_ok [OF assms(1)] by (auto simp: got_401_def)
  then show ?thesis by (rule fsv_401)
qed

lemma fetchSharedVideos_401:
  assumes "got_401 s (fetchSharedVideos e s)"
  shows "logged_out (fetchSharedVideos e s)"
proof -
  have "new_events s (fetchSharedVideos e s) = refresh_events e s"
    using fsv_trace by (rule new_events_append)
  with assms show ?thesis by (simp add: got_401_def fsv_401)
qed

lemma apiRequest_401:
  assumes "got_401 s (fst (apiRequest e url m b True s))"
  shows "logged_out (fst (apiRequest e url m b True s)) \<and>
    snd (apiRequest e url m b True s) = Inl (Error ''Authentication failed'')"
proof -
  obtain s1 res where a: "apiRequest e url m b True s = (s1, res)"
    by (cases "apiRequest e url m b True s")
  have "new_events s s1 = request_events e url m b s"
    using api_trace [OF a] by (rule new_events_append)
  then have "list_ex is_401 (request_events e url m b s)"
    using assms a by (simp add: got_401_def)
  from api_401 [OF a this] a show ?thesis by simp
qed

lemma shareForm_submit_401:
  assumes "got_401 s (shareForm_submit e s)"
  shows "logged_out (shareForm_submit e s)"
proof (cases rule: shareForm_submit_cases [of s e])
  case invalid
  then show ?thesis
    using assms got_401_unchanged [of "shareForm_submit e s" s] by (simp add: clearMessages_frame)
next
  case (failed sid dv s1 err)
  show ?thesis
    using failed(4) _ _ _ assms
    by (rule got_401_failed) (simp_all add: failed(5) clearMessages_frame logged_out_def)
next
  case (no_url sid dv s1 result err)
  then show ?thesis
    using assms got_401_answered [OF no_url(4), of s "shareForm_submit e s"]
    by (simp add: clearMessages_frame)
next
  case (shared sid dv s1 result share_url)
  show ?thesis
    unfolding shared(6)
    using shared(4) _ _ assms [unfolded shared(6)]
    by (rule got_401_refreshed) (simp_all add: clearMessages_frame shareForm_reset_def)
qed

lemma saveEditButton_click_401:
  assumes "got_401 s (saveEditButton_click e s)"
  shows "logged_out (saveEditButton_click e s)"
proof (cases rule: saveEditButton_click_cases [of s e])
  case invalid
  then show ?thesis
    using assms got_401_unchanged [of "saveEditButton_click e s" s]
    by (simp add: clearMessages_frame)
next
  case (failed dv s1 err)
  show ?thesis
    using failed(3) _ _ _ assms
    by (rule got_401_failed) (simp_all add: failed(4) clearMessages_frame logged_out_def)
next
  case (saved dv s1 r)
  show ?thesis
    unfolding saved(4)
    using saved(3) _ _ assms [unfolded saved(4)]
    by (rule got_401_refreshed) (simp_all add: clearMessages_frame)
qed

lemma deleteButton_click_401:
  assumes "got_401 s (deleteButton_click e target s)"
  shows "logged_out (deleteButton_click e target s)"
proof (cases rule: deleteButton_click_cases [of e target s])
  case declined
  then show ?thesis
    using assms got_401_unchanged [of s s] by simp
next
  case (failed s1 err)
  show ?thesis
    using failed(2) _ _ _ assms
    by (rule got_401_failed) (simp_all add: failed(3) logged_out_def)
next
  case (deleted s1 r)
  show ?thesis
    unfolding deleted(3)
    using deleted(2) _ _ assms [unfolded deleted(3)]
    by (rule got_401_refreshed) simp_all
qed

lemma lookupTitleButton_click_401:
  assumes "got_401 s (lookupTitleButton_click e s)"
  shows "logged_out (lookupTitleButton_click e s)"
proof (cases rule: lookupTitleButton_click_cases [of s e])
  case no_id
  then show ?thesis
    using assms got_401_unchanged [of "lookupTitleButton_click e s" s]
    by (simp add: clearMessages_frame)
next
  case (failed s1 err)
  show ?thesis
    using failed(2) _ _ _ assms
    by (rule got_401_failed) (simp_all add: failed(3) clearMessages_frame logged_out_def)
next
  case (no_title s1 data)
  then show ?thesis
    using assms got_401_answered [OF no_title(2), of s "lookupTitleButton_click e s"]
    by (simp add: clearMessages_frame)
next
  case (found s1 data)
  then show ?thesis
    using assms got_401_answered [OF found(2), of s "lookupTitleButton_click e s"]
    by (simp add: clearMessages_frame)
qed

text \<open>
  C2. Whenever an authenticated request is answered with status 401, the token variable
  and the stored token are cleared and the login view is shown; \<open>apiRequest\<close> then
  raises \<^verbatim>\<open>Authentication failed\<close>. This holds whichever action issued the request:
  the list fetch, create, edit, delete and the title lookup, also when the 401 answers
  the list refresh that follows a successful create, edit or delete.
\<close>

theorem forced_logout_on_401:
  "(got_401 s (fst (apiRequest e url m b True s)) \<longrightarrow>
      logged_out (fst (apiRequest e url m b True s)) \<and>
      snd (apiRequest e url m b True s) = Inl (Error ''Authentication failed'')) \<and>
   (got_401 s (fetchSharedVideos e s) \<longrightarrow> logged_out (fetchSharedVideos e s)) \<and>
   (got_401 s (shareForm_submit e s) \<longrightarrow> logged_out (shareForm_submit e s)) \<and>
   (got_401 s (saveEditButton_click e s) \<longrightarrow> logged_out (saveEditButton_click e s)) \<and>
   (got_401 s (deleteButton_click e target s) \<longrightarrow> logged_out (deleteButton_click e target s)) \<and>
   (got_401 s (lookupTitleButton_click e s) \<longrightarrow> logged_out (lookupTitleButton_click e s))"
  using apiRequest_401 fetchSharedVideos_401 shareForm_submit_401 saveEditButton_click_401
    deleteButton_click_401 lookupTitleButton_click_401
  by blast

theorem forced_logout_on_401_witness:
  "got_401 (page_with (JStr ''t0'') ''12'' ''clip'' ''7'')
     (deleteButton_click (answering (\<lambda>r. json_response 401 JNull)) (Some ''ab'')
        (page_with (JStr ''t0'') ''12'' ''clip'' ''7'')) \<and>
   logged_out
     (deleteButton_click (answering (\<lambda>r. json_response 401 JNull)) (Some ''ab'')
        (page_with (JStr ''t0'') ''12'' ''clip'' ''7''))"
proof -
  let ?e = "answering (\<lambda>r. json_response 401 JNull)"
  let ?p = "page_with (JStr ''t0'') ''12'' ''clip'' ''7''"
  have h: "got_401 ?p (deleteButton_click ?e (Some ''ab'') ?p)"
    by (simp add: got_401_def new_events_def deleteButton_click_def Let_def apiRequest_def
          handle_response_def answering_def json_response_def page_with_def showLogin_def
          attr_string_def)
  from forced_logout_on_401 [of ?p ?e _ _ _ "Some ''ab''"] h show ?thesis
    by blast
qed

section \<open>Order of a refresh\<close>

lemma refresh_events_shape:
  "refresh_events e s = [] \<or>
   (\<exists>r'. refresh_events e s = [Sent (api_options ''/shared_videos'' ''GET'' JNull (authToken s)),
                                 Received r'])"
  by (simp add: refresh_events_def request_events_def)

lemma request_events_shape:
  "request_events e url m b s = [] \<or>
   (\<exists>r. request_events e url m b s = [Sent (api_options url m b (authToken s)), Received r])"
  by (simp add: request_events_def)

lemma refresh_follows_failed:
  assumes "apiRequest e url m b True s0 = (s1, res)"
    and "trace s0 = trace s" and "trace s' = trace s1"
  shows "refresh_follows_success m (new_events s s')"
proof -
  have "trace s' = trace s @ request_events e url m b s0"
    using api_trace [OF assms(1)] assms(2,3) by simp
  then have "new_events s s' = request_events e url m b s0"
    by (rule new_events_append)
  then show ?thesis
    using request_events_shape [of e url m b s0] by (auto simp: api_options_def)
qed

lemma refresh_follows_done:
  assumes "apiRequest e url m b True s0 = (s1, Inr v)"
    and "trace s0 = trace s" and "trace s2 = trace s1" and "authToken s2 = authToken s1"
  shows "refresh_follows_success m (new_events s (fetchSharedVideos e s2))"
proof -
  have "trace (fetchSharedVideos e s2) =
      trace s @ (request_events e url m b s0 @ refresh_events e s2)"
    using api_trace [OF assms(1)] assms(2,3) by (simp add: fsv_trace)
  then have n: "new_events s (fetchSharedVideos e s2) =
      request_events e url m b s0 @ refresh_events e s2"
    by (rule new_events_append)
  from api_ok [OF assms(1)] obtain r where r:
    "request_events e url m b s0 = [Sent (api_options url m b (authToken s0)), Received (Resolved r)]"
    "response_ok r" and tok: "js_truthy (authToken s1)" "authToken s1 = authToken s0"
    by auto
  have "\<exists>r'. refresh_events e s2 =
      [Sent (api_options ''/shared_videos'' ''GET'' JNull (authToken s2)), Received r']"
    using tok assms(4) by (simp add: refresh_events_def request_events_def)
  then show ?thesis
    using n r by (auto simp: api_options_def)
qed

lemma shareForm_submit_order:
  "refresh_follows_success ''POST'' (new_events s (shareForm_submit e s))"
proof (cases rule: shareForm_submit_cases [of s e])
  case invalid
  then show ?thesis by (simp add: new_events_def clearMessages_frame)
next
  case (failed sid dv s1 err)
  show ?thesis
    using failed(4) by (rule refresh_follows_failed) (simp_all add: failed(5) clearMessages_frame)
next
  case (no_url sid dv s1 result err)
  show ?thesis
    using no_url(4) by (rule refresh_follows_failed) (simp_all add: no_url(6) clearMessages_frame)
next
  case (shared sid dv s1 result share_url)
  show ?thesis
    unfolding shared(6)
    using shared(4)
    by (rule refresh_follows_done) (simp_all add: clearMessages_frame shareForm_reset_def)
qed

lemma saveEditButton_click_order:
  "refresh_follows_success ''PUT'' (new_events s (saveEditButton_click e s))"
proof (cases rule: saveEditButton_click_cases [of s e])
  case invalid
  then show ?thesis by (simp add: new_events_def clearMessages_frame)
next
  case (failed dv s1 err)
  show ?thesis
    using failed(3) by (rule refresh_follows_failed) (simp_all add: failed(4) clearMessages_frame)
next
  case (saved dv s1 r)
  show ?thesis
    unfolding saved(4)
    using saved(3) by (rule refresh_follows_done) (simp_all add: clearMessages_frame)
qed

lemma deleteButton_click_order:
  "refresh_follows_success ''DELETE'' (new_events s (deleteButton_click e target s))"
proof (cases rule: deleteButton_click_cases [of e target s])
  case declined
  then show ?thesis by (simp add: new_events_def)
next
  case (failed s1 err)
  show ?thesis
    using failed(2) by (rule refresh_follows_failed) (simp_all add: failed(3))
next
  case (deleted s1 r)
  show ?thesis
    unfolding deleted(3)
    using deleted(2) by (rule refresh_follows_done) simp_all
qed

lemma trace_grows:
  "trace (shareForm_submit e s) = trace s @ new_events s (shareForm_submit e s) \<and>
   trace (saveEditButton_click e s) = trace s @ new_events s (saveEditButton_click e s) \<and>
   trace (deleteButton_click e target s) = trace s @ new_events s (deleteButton_click e target s)"
proof -
  have 1: "trace (shareForm_submit e s) = trace s @ new_events s (shareForm_submit e s)"
  proof (cases rule: shareForm_submit_cases [of s e])
    case invalid
    then show ?thesis by (simp add: new_events_def clearMessages_frame)
  next
    case (failed sid dv s1 err)
    then show ?thesis
      using api_trace [OF failed(4)] by (simp add: new_events_def clearMessages_frame)
  next
    case (no_url sid dv s1 result err)
    then show ?thesis
      using api_trace [OF no_url(4)] by (simp add: new_events_def clearMessages_frame)
  next
    case (shared sid dv s1 result share_url)
    then show ?thesis
      using api_trace [OF shared(4)]
      by (simp add: new_events_def clearMessages_frame fsv_trace shareForm_reset_def)
  qed
  have 2: "trace (saveEditButton_click e s) = trace s @ new_events s (saveEditButton_click e s)"
  proof (cases rule: saveEditButton_click_cases [of s e])
    case invalid
    then show ?thesis by (simp add: new_events_def clearMessages_frame)
  next
    case (failed dv s1 err)
    then show ?thesis
      using api_trace [OF failed(3)] by (simp add: new_events_def clearMessages_frame)
  next
    case (saved dv s1 r)
    then show ?thesis
      using api_trace [OF saved(3)] by (simp add: new_events_def clearMessages_frame fsv_trace)
  qed
  have 3: "trace (deleteButton_click e target s) =
      trace s @ new_events s (deleteButton_click e target s)"
  proof (cases rule: deleteButton_click_cases [of e target s])
    case declined
    then show ?thesis by (simp add: new_events_def)
  next
    case (failed s1 err)
    then show ?thesis
      using api_trace [OF failed(2)] by (simp add: new_events_def)
  next
    case (deleted s1 r)
    then show ?thesis
      using api_trace [OF deleted(2)] by (simp add: new_events_def fsv_trace)
  qed
  from 1 2 3 show ?thesis by simp
qed

text \<open>
  C8. The traffic that a create, an edit or a delete adds to the page's trace is empty,
  or the operation's request and its answer, or these followed by the list refresh and
  its answer; in the last case the operation's answer was a success. So the refresh is
  sent only after the operation's request has completed successfully, never before its
  answer has arrived.
\<close>

theorem refresh_only_after_success:
  "trace (shareForm_submit e s) = trace s @ new_events s (shareForm_submit e s) \<and>
   refresh_follows_success ''POST'' (new_events s (shareForm_submit e s)) \<and>
   trace (saveEditButton_click e s) = trace s @ new_events s (saveEditButton_click e s) \<and>
   refresh_follows_success ''PUT'' (new_events s (saveEditButton_click e s)) \<and>
   trace (deleteButton_click e target s) = trace s @ new_events s (deleteButton_click e target s) \<and>
   refresh_follows_success ''DELETE'' (new_events s (deleteButton_click e target s))"
  using trace_grows [of e s target] shareForm_submit_order [of s e]
    saveEditButton_click_order [of s e] deleteButton_click_order [of s e target]
  by simp

theorem refresh_only_after_success_witness:
  "new_events (page_with (JStr ''t0'') ''12'' ''clip'' ''7'')
     (deleteButton_click (answering (\<lambda>r. json_response 200 (JArr []))) (Some ''ab'')
        (page_with (JStr ''t0'') ''12'' ''clip'' ''7'')) =
     [Sent (api_options ''/delete_share/ab'' ''DELETE'' JNull (JStr ''t0'')),
      Received (json_response 200 (JArr [])),
      Sent (api_options ''/shared_videos'' ''GET'' JNull (JStr ''t0'')),
      Received (json_response 200 (JArr []))] \<and>
   refresh_follows_success ''DELETE''
     (new_events (page_with (JStr ''t0'') ''12'' ''clip'' ''7'')
        (deleteButton_click (answering (\<lambda>r. json_response 200 (JArr []))) (Some ''ab'')
           (page_with (JStr ''t0'') ''12'' ''clip'' ''7'')))"
proof -
  let ?e = "answering (\<lambda>r. json_response 200 (JArr []))"
  let ?p = "page_with (JStr ''t0'') ''12'' ''clip'' ''7''"
  have "new_events ?p (deleteButton_click ?e (Some ''ab'') ?p) =
     [Sent (api_options ''/delete_share/ab'' ''DELETE'' JNull (JStr ''t0'')),
      Received (json_response 200 (JArr [])),
      Sent (api_options ''/shared_videos'' ''GET'' JNull (JStr ''t0'')),
      Received (json_response 200 (JArr []))]"
    by (simp add: new_events_def deleteButton_click_def fetchSharedVideos_def Let_def
          apiRequest_def handle_response_def answering_def json_response_def page_with_def
          attr_string_def api_options_def response_ok_def renderSharedVideos_def)
  with refresh_only_after_success [of ?e ?p "Some ''ab''"] show ?thesis
    by simp
qed

section \<open>The body of an edit\<close>

lemma put_requests_refresh: "put_requests (refresh_events e s) = []"
  by (simp add: refresh_events_def request_events_def api_options_def)

lemma put_requests_append: "put_requests (xs @ ys) = put_requests xs @ put_requests ys"
  by (induction xs rule: put_requests.induct) simp_all

lemma put_requests_edit:
  "put_requests (request_events e url ''PUT'' (updatedData n dv) s) =
     (if js_truthy (authToken s)
      then [api_options url ''PUT'' (updatedData n dv) (authToken s)] else [])"
  by (simp add: request_events_def api_options_def)

lemma saveEditButton_click_put:
  "put_requests (new_events s (saveEditButton_click e s)) = [] \<or>
   (\<exists>dv. parseInt10 (editDaysValidInput s) = Some dv \<and>
      put_requests (new_events s (saveEditButton_click e s)) =
        [api_options (''/edit_share/'' @ editShareIdInput s) ''PUT''
           (updatedData (editVideoNameInput s) dv) (authToken s)])"
proof (cases rule: saveEditButton_click_cases [of s e])
  case invalid
  then show ?thesis by (simp add: new_events_def clearMessages_frame)
next
  case (failed dv s1 err)
  have "trace (saveEditButton_click e s) =
      trace s @ request_events e (''/edit_share/'' @ editShareIdInput s) ''PUT''
        (updatedData (editVideoNameInput s) dv) (clearMessages s)"
    using api_trace [OF failed(3)] failed(4) by (simp add: clearMessages_frame)
  from new_events_append [OF this] failed(2) show ?thesis
    by (simp add: put_requests_edit clearMessages_frame)
next
  case (saved dv s1 r)
  have "trace (saveEditButton_click e s) =
      trace s @ (request_events e (''/edit_share/'' @ editShareIdInput s) ''PUT''
        (updatedData (editVideoNameInput s) dv) (clearMessages s) @
        refresh_events e (s1\<lparr>editModal_display := ''none''\<rparr>))"
    using api_trace [OF saved(3)] saved(4) by (simp add: clearMessages_frame fsv_trace)
  from new_events_append [OF this] saved(2) show ?thesis
    by (simp add: put_requests_edit put_requests_append put_requests_refresh clearMessages_frame)
qed

text \<open>
  C9. Every \<^verbatim>\<open>PUT\<close> request that saving an edit sends carries a body of exactly the
  three properties \<^verbatim>\<open>video_name\<close>, \<^verbatim>\<open>stash_video_id\<close> and \<^verbatim>\<open>days_valid\<close>, with
  \<^verbatim>\<open>stash_video_id\<close> equal to 0: the name and the days come from the edit form, and
  nothing of the record's own source-video identifier is sent.
\<close>

theorem edit_sends_stash_video_id_zero:
  "\<forall>r \<in> set (put_requests (new_events s (saveEditButton_click e s))).
     \<exists>dv. parseInt10 (editDaysValidInput s) = Some dv \<and>
       req_url r = ''/edit_share/'' @ editShareIdInput s \<and>
       req_body r = Some (JObj [(''video_name'', JStr (editVideoNameInput s)),
                                (''stash_video_id'', JNum 0), (''days_valid'', JNum dv)]) \<and>
       (\<forall>b. req_body r = Some b \<longrightarrow> get_prop b ''stash_video_id'' = Inr (JNum 0))"
  using saveEditButton_click_put [of s e]
  by (auto simp: api_options_def updatedData_def)

theorem edit_sends_stash_video_id_zero_witness:
  "put_requests
     (new_events (page_with (JStr ''t0'') ''ab'' ''clip'' ''7'')
        (saveEditButton_click (answering (\<lambda>r. json_response 200 (JArr [])))
           (page_with (JStr ''t0'') ''ab'' ''clip'' ''7''))) =
     [api_options ''/edit_share/ab'' ''PUT'' (updatedData ''clip'' 7) (JStr ''t0'')] \<and>
   req_body (api_options ''/edit_share/ab'' ''PUT'' (updatedData ''clip'' 7) (JStr ''t0'')) =
     Some (JObj [(''video_name'', JStr ''clip''), (''stash_video_id'', JNum 0),
                 (''days_valid'', JNum 7)])"
proof -
  let ?e = "answering (\<lambda>r. json_response 200 (JArr []))"
  let ?p = "page_with (JStr ''t0'') ''ab'' ''clip'' ''7''"
  let ?r = "api_options ''/edit_share/ab'' ''PUT'' (updatedData ''clip'' 7) (JStr ''t0'')"
  have t: "js_truthy (authToken ?p)" "editShareIdInput ?p = ''ab''" "editVideoNameInput ?p = ''clip''"
    "editDaysValidInput ?p = ''7''" "authToken ?p = JStr ''t0''"
    by (simp_all add: page_with_def)
  have v: "edit_fields_valid ?p"
    by (simp add: edit_fields_valid_def t parse_7)
  have ne: "put_requests (new_events ?p (saveEditButton_click ?e ?p)) \<noteq> []"
  proof (cases rule: saveEditButton_click_cases [of ?p ?e])
    case invalid
    with v show ?thesis by simp
  next
    case (failed dv s1 err)
    have "trace (saveEditButton_click ?e ?p) =
        trace ?p @ request_events ?e (''/edit_share/'' @ editShareIdInput ?p) ''PUT''
          (updatedData (editVideoNameInput ?p) dv) (clearMessages ?p)"
      using api_trace [OF failed(3)] failed(4) by (simp add: clearMessages_frame)
    from new_events_append [OF this] show ?thesis
      using t(1) by (simp add: put_requests_edit clearMessages_frame)
  next
    case (saved dv s1 r)
    have "trace (saveEditButton_click ?e ?p) =
        trace ?p @ (request_events ?e (''/edit_share/'' @ editShareIdInput ?p) ''PUT''
          (updatedData (editVideoNameInput ?p) dv) (clearMessages ?p) @
          refresh_events ?e (s1\<lparr>editModal_display := ''none''\<rparr>))"
      using api_trace [OF saved(3)] saved(4) by (simp add: clearMessages_frame fsv_trace)
    from new_events_append [OF this] show ?thesis
      using t(1) by (simp add: put_requests_edit put_requests_append clearMessages_frame)
  qed
  then obtain r rs where rr: "put_requests (new_events ?p (saveEditButton_click ?e ?p)) = r # rs"
    by (cases "put_requests (new_events ?p (saveEditButton_click ?e ?p))") auto
  have s: "put_requests (new_events ?p (saveEditButton_click ?e ?p)) = [?r]"
    using saveEditButton_click_put [of ?p ?e] ne by (simp add: t parse_7)
  have "r \<in> set (put_requests (new_events ?p (saveEditButton_click ?e ?p)))"
    using rr by simp
  from edit_sends_stash_video_id_zero [rule_format, OF this] s rr show ?thesis
    by (auto simp: t parse_7)
qed

section \<open>Title lookup\<close>

text \<open>
  C10. When a title lookup is attempted (an id was entered) and fails, because
  \<open>apiRequest\<close> raises an error or because its result carries no title, the name
  field of the create form is set to the empty string and the inline error is shown;
  whatever the field held before is lost.
\<close>

theorem failed_lookup_clears_name:
  assumes "stashIdInput s \<noteq> []"
    and "apiRequest e (''/get_video_title/'' @ stashIdInput s) ''GET'' JNull True
           (clearMessages s) = (s1, res)"
    and "case res of
           Inl err \<Rightarrow> True
         | Inr data \<Rightarrow> \<not> (js_truthy data \<and> js_truthy (read_prop data ''title''))"
  shows "videoNameInput (lookupTitleButton_click e s) = [] \<and>
    shareError (lookupTitleButton_click e s) =
      (case res of
         Inl err \<Rightarrow> ''Error looking up title: '' @ message err
       | Inr data \<Rightarrow> ''Could not find title for this ID.'')"
proof (cases rule: lookupTitleButton_click_cases [of s e])
  case no_id
  with assms(1) show ?thesis by simp
next
  case (failed s1' err)
  with assms(2) show ?thesis by simp
next
  case (no_title s1' data)
  with assms(2) show ?thesis by simp
next
  case (found s1' data)
  with assms(2,3) show ?thesis by simp
qed

theorem failed_lookup_clears_name_witness:
  "videoNameInput (page_with (JStr ''t0'') ''12'' ''old name'' ''7'') = ''old name'' \<and>
   videoNameInput
     (lookupTitleButton_click
        (answering (\<lambda>r. json_response 404 (JObj [(''detail'', JStr ''No such video'')])))
        (page_with (JStr ''t0'') ''12'' ''old name'' ''7'')) = [] \<and>
   shareError
     (lookupTitleButton_click
        (answering (\<lambda>r. json_response 404 (JObj [(''detail'', JStr ''No such video'')])))
        (page_with (JStr ''t0'') ''12'' ''old name'' ''7''))
     = ''Error looking up title: No such video''"
proof -
  let ?e = "answering (\<lambda>r. json_response 404 (JObj [(''detail'', JStr ''No such video'')]))"
  let ?p = "page_with (JStr ''t0'') ''12'' ''old name'' ''7''"
  have h: "stashIdInput ?p \<noteq> []"
    by (simp add: page_with_def)
  obtain s1 res where a: "apiRequest ?e (''/get_video_title/'' @ stashIdInput ?p) ''GET'' JNull True
      (clearMessages ?p) = (s1, res)"
    by (cases "apiRequest ?e (''/get_video_title/'' @ stashIdInput ?p) ''GET'' JNull True
      (clearMessages ?p)")
  have res: "res = Inl (Error ''No such video'')"
    using a
    by (auto simp: apiRequest_def handle_response_def Let_def answering_def json_response_def
          page_with_def clearMessages_def response_ok_def)
  then have c: "case res of
           Inl err \<Rightarrow> True
         | Inr data \<Rightarrow> \<not> (js_truthy data \<and> js_truthy (read_prop data ''title''))"
    by simp
  from failed_lookup_clears_name [OF h a c] res show ?thesis
    by (simp add: page_with_def)
qed

section \<open>The contract of \<open>apiRequest\<close>\<close>

lemma apiRequest_unfold:
  assumes "requiresAuth \<longrightarrow> js_truthy (authToken s)"
  shows "apiRequest e url m body requiresAuth s =
    (let options = \<lparr>req_url = url, req_method = m,
                     req_headers = auth_headers requiresAuth (authToken s),
                     req_body = (if js_truthy body then Some body else None)\<rparr>;
         s' = s\<lparr>trace := trace s @ [Sent options, Received (fetch e (trace s) options)]\<rparr>
     in case fetch e (trace s) options of
          Rejected err \<Rightarrow> (s', Inl err)
        | Resolved r \<Rightarrow> handle_response requiresAuth r s')"
  using assms by (auto simp: apiRequest_def Let_def)

lemma handle_response_trace: "trace (fst (handle_response a r s)) = trace s"
  by (simp add: handle_response_def Let_def showLogin_def split: sum.splits)

text \<open>
  C5, as amended. A call of \<open>apiRequest\<close> that is not stopped by the token guard sends
  one request: the JSON content type always, the bearer header when authentication is
  required, and the body when one is given. A rejected \<^verbatim>\<open>fetch\<close> is raised as it is.
  A 401 answer to an authenticated call raises \<^verbatim>\<open>Authentication failed\<close> and logs
  out, whatever the server's message. Any other non-success status raises the server's
  \<^verbatim>\<open>detail\<close> when the body has one, \<^verbatim>\<open>Unknown error\<close> when the body is not JSON,
  and a message with the status otherwise. A success with an empty body that shows as
  the no-content status 204 or as a \<^verbatim>\<open>content-length\<close> of 0 returns \<^verbatim>\<open>null\<close>; any
  other success whose body parses as JSON returns the parsed value. Nothing is said of
  a success whose body does not parse, an empty body with neither sign among them, nor
  of a failure whose body is the JSON \<^verbatim>\<open>null\<close>.
\<close>

theorem apiRequest_contract:
  assumes "requiresAuth \<longrightarrow> js_truthy (authToken s)"
    and "options = \<lparr>req_url = url, req_method = m,
           req_headers = (''Content-Type'', ''application/json'') #
             (if requiresAuth
              then [(''Authorization'', ''Bearer '' @ js_to_string (authToken s))] else []),
           req_body = (if js_truthy body then Some body else None)\<rparr>"
    and "apiRequest e url m body requiresAuth s = (s1, res)"
  shows "trace s1 = trace s @ [Sent options, Received (fetch e (trace s) options)] \<and>
    (case fetch e (trace s) options of
       Rejected err \<Rightarrow> res = Inl err
     | Resolved r \<Rightarrow>
         (status r = 401 \<and> requiresAuth \<longrightarrow>
            res = Inl (Error ''Authentication failed'') \<and> logged_out s1) \<and>
         (\<not> response_ok r \<and> \<not> (status r = 401 \<and> requiresAuth) \<longrightarrow>
            (\<forall>err. json r = Inl err \<longrightarrow> res = Inl (Error ''Unknown error'')) \<and>
            (\<forall>v d. json r = Inr v \<and> get_prop v ''detail'' = Inr d \<and> js_truthy d \<longrightarrow>
               res = Inl (Error (js_to_string d))) \<and>
            (\<forall>v d. json r = Inr v \<and> get_prop v ''detail'' = Inr d \<and> \<not> js_truthy d \<longrightarrow>
               res = Inl (Error (''HTTP error! status: '' @ show_nat (status r))))) \<and>
         (response_ok r \<and> (status r = 204 \<or> content_length r = Some ''0'') \<longrightarrow>
            res = Inr JNull) \<and>
         (response_ok r \<and> status r \<noteq> 204 \<and> content_length r \<noteq> Some ''0'' \<longrightarrow>
            (\<forall>v. json r = Inr v \<longrightarrow> res = Inr v)))"
proof -
  have o: "options = \<lparr>req_url = url, req_method = m,
      req_headers = auth_headers requiresAuth (authToken s),
      req_body = (if js_truthy body then Some body else None)\<rparr>"
    using assms(2) by (simp add: auth_headers_def)
  let ?s' = "s\<lparr>trace := trace s @ [Sent options, Received (fetch e (trace s) options)]\<rparr>"
  have u: "(s1, res) = (case fetch e (trace s) options of
          Rejected err \<Rightarrow> (?s', Inl err)
        | Resolved r \<Rightarrow> handle_response requiresAuth r ?s')"
    using apiRequest_unfold [OF assms(1), of e url m body, folded o] assms(3)
    by (simp add: Let_def)
  show ?thesis
  proof (cases "fetch e (trace s) options")
    case (Rejected err)
    with u show ?thesis by simp
  next
    case (Resolved r)
    with u have h: "handle_response requiresAuth r ?s' = (s1, res)" by simp
    have t: "trace s1 = trace s @ [Sent options, Received (fetch e (trace s) options)]"
      using handle_response_trace [of requiresAuth r ?s'] h by simp
    have ok: "response_ok r \<Longrightarrow> status r \<noteq> 401"
      by (simp add: response_ok_def)
    have c401: "res = Inl (Error ''Authentication failed'') \<and> logged_out s1"
      if "status r = 401 \<and> requiresAuth"
      using h that by (auto simp: handle_response_def logged_out_def showLogin_def)
    have cfail: "(\<forall>err. json r = Inl err \<longrightarrow> res = Inl (Error ''Unknown error'')) \<and>
            (\<forall>v d. json r = Inr v \<and> get_prop v ''detail'' = Inr d \<and> js_truthy d \<longrightarrow>
               res = Inl (Error (js_to_string d))) \<and>
            (\<forall>v d. json r = Inr v \<and> get_prop v ''detail'' = Inr d \<and> \<not> js_truthy d \<longrightarrow>
               res = Inl (Error (''HTTP error! status: '' @ show_nat (status r))))"
      if "\<not> response_ok r \<and> \<not> (status r = 401 \<and> requiresAuth)"
      using h that by (auto simp: handle_response_def Let_def)
    have cempty: "res = Inr JNull"
      if "response_ok r \<and> (status r = 204 \<or> content_length r = Some ''0'')"
      using h that ok by (auto simp: handle_response_def)
    have cjson: "\<forall>v. json r = Inr v \<longrightarrow> res = Inr v"
      if "response_ok r \<and> status r \<noteq> 204 \<and> content_length r \<noteq> Some ''0''"
      using h that ok by (auto simp: handle_response_def)
    have t': "trace s1 = trace s @ [Sent options, Received (Resolved r)]"
      using t Resolved by simp
    show ?thesis
      unfolding Resolved fetch_result.case
      using t' c401 cfail cempty cjson by blast
  qed
qed

theorem apiRequest_contract_witness:
  "snd (apiRequest
     (answering (\<lambda>r. json_response 422 (JObj [(''detail'', JStr ''days_valid must be positive'')])))
     ''/share'' ''POST'' (shareData ''clip'' 12 0) True
     (page_with (JStr ''t0'') ''12'' ''clip'' ''0'')) =
   Inl (Error ''days_valid must be positive'') \<and>
   js_truthy (authToken (page_with (JStr ''t0'') ''12'' ''clip'' ''0''))"
proof -
  let ?e = "answering (\<lambda>r. json_response 422
      (JObj [(''detail'', JStr ''days_valid must be positive'')]))"
  let ?p = "page_with (JStr ''t0'') ''12'' ''clip'' ''0''"
  let ?o = "\<lparr>req_url = ''/share'', req_method = ''POST'',
           req_headers = (''Content-Type'', ''application/json'') #
             (if True
              then [(''Authorization'', ''Bearer '' @ js_to_string (authToken ?p))] else []),
           req_body = (if js_truthy (shareData ''clip'' 12 0)
                       then Some (shareData ''clip'' 12 0) else None)\<rparr>"
  have h: "True \<longrightarrow> js_truthy (authToken ?p)"
    by (simp add: page_with_def)
  obtain s1 res where a: "apiRequest ?e ''/share'' ''POST'' (shareData ''clip'' 12 0) True ?p = (s1, res)"
    by (cases "apiRequest ?e ''/share'' ''POST'' (shareData ''clip'' 12 0) True ?p")
  have f: "fetch ?e (trace ?p) ?o =
      Resolved \<lparr>status = 422, content_length = None,
                json = Inr (JObj [(''detail'', JStr ''days_valid must be positive'')])\<rparr>"
    by (simp add: answering_def json_response_def)
  from apiRequest_contract [OF h refl a] f a h show ?thesis
    by (simp add: response_ok_def)
qed

text \<open>
  The claim as stated fails at a 401 answer to an authenticated call: the server's
  message is there, and \<^verbatim>\<open>Authentication failed\<close> is raised in its place.
\<close>

theorem apiRequest_401_ignores_detail:
  "snd (apiRequest
     (answering (\<lambda>r. json_response 401 (JObj [(''detail'', JStr ''Token has expired'')])))
     ''/shared_videos'' ''GET'' JNull True (page_with (JStr ''t0'') [] [] [])) =
   Inl (Error ''Authentication failed'') \<and>
   get_prop (JObj [(''detail'', JStr ''Token has expired'')]) ''detail'' =
     Inr (JStr ''Token has expired'')"
  by (simp add: apiRequest_def handle_response_def Let_def answering_def json_response_def
        page_with_def)

section \<open>Creating a share\<close>

lemma parse_abc: "parseInt10 ''abc'' = None"
  by (simp add: parseInt10_def strip_sign_def is_ws_def is_digit_def)

lemma shareForm_submit_rejected:
  assumes "\<not> share_fields_valid s"
  shows "shareForm_submit e s =
         (clearMessages s)\<lparr>shareError := ''Please fill in all fields correctly.''\<rparr> \<and>
    trace (shareForm_submit e s) = trace s"
proof (cases rule: shareForm_submit_cases [of s e])
  case invalid
  then show ?thesis by (simp add: clearMessages_frame)
qed (use assms in simp_all)

lemma shareForm_submit_shared:
  assumes "parseInt10 (stashIdInput s) = Some sid" and "parseInt10 (daysValidInput s) = Some dv"
    and "videoNameInput s \<noteq> []"
    and a: "apiRequest e ''/share'' ''POST'' (shareData (videoNameInput s) sid dv) True
         (clearMessages s) = (s1, Inr result)"
    and u: "get_prop result ''share_url'' = Inr share_url"
  shows "shareMessage (shareForm_submit e s) =
      ''Video shared successfully! URL: '' @ js_to_string share_url \<and>
    shareError (shareForm_submit e s) = [] \<and>
    stashIdInput (shareForm_submit e s) = stashId_default e \<and>
    videoNameInput (shareForm_submit e s) = videoName_default e \<and>
    daysValidInput (shareForm_submit e s) = daysValid_default e \<and>
    (\<exists>r r'. response_ok r \<and> new_events s (shareForm_submit e s) =
       [Sent (api_options ''/share'' ''POST'' (shareData (videoNameInput s) sid dv) (authToken s)),
        Received (Resolved r),
        Sent (api_options ''/shared_videos'' ''GET'' JNull (authToken s)),
        Received r'])"
proof -
  let ?s2 = "shareForm_reset e
      (s1\<lparr>shareMessage := ''Video shared successfully! URL: '' @ js_to_string share_url\<rparr>)"
  have eq: "shareForm_submit e s = fetchSharedVideos e ?s2"
    using assms by (simp add: shareForm_submit_def Let_def clearMessages_frame)
  from api_ok [OF a] obtain r where r:
    "request_events e ''/share'' ''POST'' (shareData (videoNameInput s) sid dv) (clearMessages s) =
       [Sent (api_options ''/share'' ''POST'' (shareData (videoNameInput s) sid dv) (authToken s)),
        Received (Resolved r)]"
    "response_ok r" and tok: "js_truthy (authToken s)" "authToken s1 = authToken s"
    by (auto simp: clearMessages_frame)
  have tok2: "authToken ?s2 = authToken s" "js_truthy (authToken ?s2)"
    using tok by (simp_all add: shareForm_reset_def)
  have "trace (fetchSharedVideos e ?s2) =
      trace s @ (request_events e ''/share'' ''POST'' (shareData (videoNameInput s) sid dv)
        (clearMessages s) @ refresh_events e ?s2)"
    using api_trace [OF a] by (simp add: fsv_trace shareForm_reset_def clearMessages_frame)
  from new_events_append [OF this]
  have ev: "\<exists>r'. new_events s (shareForm_submit e s) =
       [Sent (api_options ''/share'' ''POST'' (shareData (videoNameInput s) sid dv) (authToken s)),
        Received (Resolved r),
        Sent (api_options ''/shared_videos'' ''GET'' JNull (authToken s)),
        Received r']"
    using r(1) tok2 by (simp add: eq refresh_events_def request_events_def)
  have fr: "shareError s1 = []"
    using api_frame [OF a] by (simp add: clearMessages_def)
  show ?thesis
    using ev r(2) fr fsv_frame [of e ?s2] by (auto simp: eq shareForm_reset_def)
qed

lemma shareForm_submit_failed:
  assumes "parseInt10 (stashIdInput s) = Some sid" and "parseInt10 (daysValidInput s) = Some dv"
    and "videoNameInput s \<noteq> []"
    and a: "apiRequest e ''/share'' ''POST'' (shareData (videoNameInput s) sid dv) True
         (clearMessages s) = (s1, Inl err)"
  shows "shareError (shareForm_submit e s) = ''Failed to share video: '' @ message err \<and>
    shareMessage (shareForm_submit e s) = [] \<and>
    stashIdInput (shareForm_submit e s) = stashIdInput s \<and>
    videoNameInput (shareForm_submit e s) = videoNameInput s \<and>
    daysValidInput (shareForm_submit e s) = daysValidInput s \<and>
    put_requests (new_events s (shareForm_submit e s)) = [] \<and>
    new_events s (shareForm_submit e s) =
      request_events e ''/share'' ''POST'' (shareData (videoNameInput s) sid dv) (clearMessages s)"
proof -
  have eq: "shareForm_submit e s = s1\<lparr>shareError := ''Failed to share video: '' @ message err\<rparr>"
    using assms by (simp add: shareForm_submit_def Let_def clearMessages_frame)
  have "trace (shareForm_submit e s) =
      trace s @ request_events e ''/share'' ''POST'' (shareData (videoNameInput s) sid dv)
        (clearMessages s)"
    using api_trace [OF a] by (simp add: eq clearMessages_frame)
  from new_events_append [OF this] show ?thesis
    using api_frame [OF a]
    by (simp add: eq clearMessages_frame request_events_def api_options_def)
       (simp add: clearMessages_def)
qed

text \<open>
  C4, as amended. In the console script a create is submitted only when the name is
  not empty and \<^verbatim>\<open>parseInt(..., 10)\<close> reads a number from both the source-video id
  and the days-valid field. Otherwise (in particular when days-valid starts with no
  number) the inline message asks to fill in all fields and nothing is sent. When the
  fields are valid, the \<^verbatim>\<open>POST\<close> succeeds and its result has a \<^verbatim>\<open>share_url\<close>
  property to read, the confirmation message with that URL is shown, the form is reset
  to its default values and the list refresh is sent after the \<^verbatim>\<open>POST\<close> was
  answered. When the \<^verbatim>\<open>POST\<close> fails, the error is shown inline, the form keeps its
  values and there is no refresh.
\<close>

theorem create_validates_then_submits:
  "(parseInt10 (daysValidInput s) = None \<or> parseInt10 (stashIdInput s) = None \<or>
      videoNameInput s = [] \<longrightarrow>
      trace (shareForm_submit e s) = trace s \<and>
      shareError (shareForm_submit e s) = ''Please fill in all fields correctly.'' \<and>
      shareMessage (shareForm_submit e s) = []) \<and>
   (\<forall>sid dv s1 result share_url.
      parseInt10 (stashIdInput s) = Some sid \<and> parseInt10 (daysValidInput s) = Some dv \<and>
      videoNameInput s \<noteq> [] \<and>
      apiRequest e ''/share'' ''POST'' (shareData (videoNameInput s) sid dv) True
        (clearMessages s) = (s1, Inr result) \<and>
      get_prop result ''share_url'' = Inr share_url \<longrightarrow>
        shareMessage (shareForm_submit e s) =
          ''Video shared successfully! URL: '' @ js_to_string share_url \<and>
        shareError (shareForm_submit e s) = [] \<and>
        stashIdInput (shareForm_submit e s) = stashId_default e \<and>
        videoNameInput (shareForm_submit e s) = videoName_default e \<and>
        daysValidInput (shareForm_submit e s) = daysValid_default e \<and>
        (\<exists>r r'. response_ok r \<and> new_events s (shareForm_submit e s) =
           [Sent (api_options ''/share'' ''POST'' (shareData (videoNameInput s) sid dv)
                   (authToken s)),
            Received (Resolved r),
            Sent (api_options ''/shared_videos'' ''GET'' JNull (authToken s)),
            Received r'])) \<and>
   (\<forall>sid dv s1 err.
      parseInt10 (stashIdInput s) = Some sid \<and> parseInt10 (daysValidInput s) = Some dv \<and>
      videoNameInput s \<noteq> [] \<and>
      apiRequest e ''/share'' ''POST'' (shareData (videoNameInput s) sid dv) True
        (clearMessages s) = (s1, Inl err) \<longrightarrow>
        shareError (shareForm_submit e s) = ''Failed to share video: '' @ message err \<and>
        shareMessage (shareForm_submit e s) = [] \<and>
        stashIdInput (shareForm_submit e s) = stashIdInput s \<and>
        videoNameInput (shareForm_submit e s) = videoNameInput s \<and>
        daysValidInput (shareForm_submit e s) = daysValidInput s \<and>
        new_events s (shareForm_submit e s) =
          request_events e ''/share'' ''POST'' (shareData (videoNameInput s) sid dv)
            (clearMessages s))"
proof -
  have 1: "trace (shareForm_submit e s) = trace s \<and>
      shareError (shareForm_submit e s) = ''Please fill in all fields correctly.'' \<and>
      shareMessage (shareForm_submit e s) = []"
    if "parseInt10 (daysValidInput s) = None \<or> parseInt10 (stashIdInput s) = None \<or>
      videoNameInput s = []"
  proof -
    from that have "\<not> share_fields_valid s" by (auto simp: share_fields_valid_def)
    from shareForm_submit_rejected [OF this, of e] show ?thesis
      by (simp add: clearMessages_def)
  qed
  show ?thesis
    using 1 shareForm_submit_shared [of s _ _ e] shareForm_submit_failed [of s _ _ e]
    by blast
qed

theorem create_validates_then_submits_witness:
  "parseInt10 (daysValidInput (page_with (JStr ''t0'') ''12'' ''clip'' ''abc'')) = None \<and>
   trace (shareForm_submit (answering (\<lambda>r. json_response 200 JNull))
            (page_with (JStr ''t0'') ''12'' ''clip'' ''abc'')) = [] \<and>
   shareError (shareForm_submit (answering (\<lambda>r. json_response 200 JNull))
            (page_with (JStr ''t0'') ''12'' ''clip'' ''abc''))
     = ''Please fill in all fields correctly.''"
proof -
  let ?e = "answering (\<lambda>r. json_response 200 JNull)"
  let ?p = "page_with (JStr ''t0'') ''12'' ''clip'' ''abc''"
  have h: "parseInt10 (daysValidInput ?p) = None"
    by (simp add: page_with_def parse_abc)
  have t: "trace ?p = []"
    by (simp add: page_with_def)
  from create_validates_then_submits [of ?p ?e] h t show ?thesis
    by simp
qed

text \<open>
  The static script's submit handler checks nothing: with \<^verbatim>\<open>abc\<close> as days valid the
  \<^verbatim>\<open>POST\<close> is sent, the three fields as the strings typed.
\<close>

theorem static_share_submit_unvalidated:
  "traffic (static_share_submit (answering failed_to_fetch)
      (static_page_with (JStr ''t0'') ''12'' ''clip'' ''abc'')) =
     [Sent \<lparr>req_url = ''/share'', req_method = ''POST'',
            req_headers = [(''Content-Type'', ''application/json''),
                           (''Authorization'', ''Bearer t0'')],
            req_body = Some (JObj [(''video_name'', JStr ''clip''),
                                   (''stash_video_id'', JStr ''12''),
                                   (''days_valid'', JStr ''abc'')])\<rparr>,
      Received (Rejected (TypeError ''Failed to fetch''))]"
  by (simp add: static_share_submit_def Let_def answering_def failed_to_fetch_def
        static_page_with_def share_options_def)

section \<open>Editing a share\<close>

lemma calculateDaysRemaining_nonneg:
  "calculateDaysRemaining e x = Some n \<Longrightarrow> 0 \<le> n"
  by (auto simp: calculateDaysRemaining_def Let_def split: option.splits)

lemma edit_days_of_remaining:
  "edit_days (Some (show_number (calculateDaysRemaining e x))) =
     (case calculateDaysRemaining e x of
        None \<Rightarrow> 7
      | Some n \<Rightarrow> if 1 \<le> n then n else 7)"
proof (cases "calculateDaysRemaining e x")
  case None
  then show ?thesis
    by (simp add: edit_days_def attr_string_def show_number_def parseInt_NaN)
next
  case (Some n)
  then have "0 \<le> n" by (rule calculateDaysRemaining_nonneg)
  then show ?thesis
    using Some by (auto simp: edit_days_def attr_string_def show_number_def parseInt_show_int)
qed

subsection \<open>The edit button of a rendered row\<close>

lemma tokenize_text:
  "text_safe w \<Longrightarrow> foldl step (Tokenizer Data n as out) w = Tokenizer Data n as out"
  by (induction w) (auto simp: text_safe_def)

lemma tokenize_value:
  "value_safe w \<Longrightarrow>
   foldl step (Tokenizer (AttributeValue a v) n as out) w =
     Tokenizer (AttributeValue a (v @ w)) n as out"
  by (induction w arbitrary: v) (auto simp: value_safe_def)

text \<open>The start tags of the row template, for fields that leave its markup alone.\<close>

lemma tokenize_row:
  assumes "text_safe share_id" "text_safe stash" "text_safe expiresDate" "text_safe hits"
    "text_safe shareUrl" "text_safe video_name"
    "value_safe share_id" "value_safe shareUrl" "value_safe video_name" "value_safe days"
  shows \<open>start_tags_of (concat
             [nl, ''                <td>'', share_id, ''</td>'',
              nl, ''                <td>'', video_name, ''</td>'',
              nl, ''                <td>'', stash, ''</td>'',
              nl, ''                <td>'', expiresDate, ''</td>'',
              nl, ''                <td>'', hits, ''</td>'',
              nl, ''                <td>'',
              nl, ''                    <a href="'', shareUrl, ''" target="_blank">'', shareUrl, ''</a>'',
              nl, ''                    <button class="copy-button" data-url="'', shareUrl,
                  ''">Copy</button>'',
              nl, ''                </td>'',
              nl, ''                <td>'',
              nl, ''                    <button class="edit-button" data-share-id="'', share_id,
                  ''" data-video-name="'', video_name,
                  ''" data-days-valid="'', days, ''">Edit</button>'',
              nl, ''                    <button class="delete-button" data-share-id="'', share_id,
                  ''">Delete</button>'',
              nl, ''                </td>'',
              nl, ''            '']) =
     Some [(''td'', []), (''td'', []), (''td'', []), (''td'', []), (''td'', []), (''td'', []),
       (''a'', [(''href'', shareUrl), (''target'', ''_blank'')]),
       (''button'', [(''class'', ''copy-button''), (''data-url'', shareUrl)]),
       (''td'', []),
       (''button'', [(''class'', ''edit-button''), (''data-share-id'', share_id),
          (''data-video-name'', video_name), (''data-days-valid'', days)]),
       (''button'', [(''class'', ''delete-button''), (''data-share-id'', share_id)])]\<close>
  using assms
  by (simp add: start_tags_of_def nl_def tokenize_text tokenize_value is_html_space_def
        is_letter_def lower_def known_tag_def emit_def)

lemma edit_button_among_row_tags:
  "edit_button_tags
     [(''td'', []), (''td'', []), (''td'', []), (''td'', []), (''td'', []), (''td'', []),
      (''a'', [(''href'', shareUrl), (''target'', ''_blank'')]),
      (''button'', [(''class'', ''copy-button''), (''data-url'', shareUrl)]),
      (''td'', []),
      (''button'', [(''class'', ''edit-button''), (''data-share-id'', share_id),
         (''data-video-name'', video_name), (''data-days-valid'', days)]),
      (''button'', [(''class'', ''delete-button''), (''data-share-id'', share_id)])] =
   Some [[(''class'', ''edit-button''), (''data-share-id'', share_id),
          (''data-video-name'', video_name), (''data-days-valid'', days)]]"
  by (simp add: class_list_def is_html_space_def)

lemma plain_digit:
  "is_digit c \<Longrightarrow>
   c \<noteq> CHR 0x22 \<and> c \<noteq> CHR 0x00 \<and> c \<noteq> CHR 0x0D \<and> c \<noteq> CHR ''<'' \<and> c \<noteq> CHR ''&''"
  by (auto simp: is_digit_def)

lemma show_int_plain:
  "\<forall>c \<in> set (show_int n).
     c \<noteq> CHR 0x22 \<and> c \<noteq> CHR 0x00 \<and> c \<noteq> CHR 0x0D \<and> c \<noteq> CHR ''<'' \<and> c \<noteq> CHR ''&''"
proof -
  have "\<forall>c \<in> set (show_nat k). is_digit c" for k
    using show_nat_digits [of k] by (simp add: list_all_iff)
  then show ?thesis
    using plain_digit by (auto simp: show_int_def)
qed

lemma show_number_plain:
  "\<forall>c \<in> set (show_number x).
     c \<noteq> CHR 0x22 \<and> c \<noteq> CHR 0x00 \<and> c \<noteq> CHR 0x0D \<and> c \<noteq> CHR ''<'' \<and> c \<noteq> CHR ''&''"
  using show_int_plain by (cases x) (simp_all add: show_number_def)

lemma show_int_safe: "text_safe (show_int n) \<and> value_safe (show_int n)"
  using show_int_plain [of n] by (auto simp: text_safe_def value_safe_def list_all_iff)

lemma show_number_safe: "value_safe (show_number x) \<and> CHR ''&'' \<notin> set (show_number x)"
  using show_number_plain [of x] by (auto simp: value_safe_def list_all_iff)

lemma text_safe_escapeHTML: "text_safe (escapeHTML v)"
  by (simp add: text_safe_def escapeHTML_def escape_char_no_angle)

lemma value_safe_append: "value_safe (u @ w) = (value_safe u \<and> value_safe w)"
  by (simp add: value_safe_def)

lemma value_safe_escape_char: "value_safe (escape_char c) = value_safe [c]"
  by (simp add: escape_char_def value_safe_def)

lemma value_safe_escape: "value_safe (concat (map escape_char w)) = value_safe w"
proof (induction w)
  case Nil
  show ?case by simp
next
  case (Cons c w)
  have "value_safe (c # w) = (value_safe [c] \<and> value_safe w)"
    by (simp add: value_safe_def)
  with Cons show ?case
    by (simp add: value_safe_append value_safe_escape_char)
qed

lemma value_safe_escapeHTML: "value_safe (escapeHTML v) = value_safe (js_to_string v)"
  by (simp add: escapeHTML_def value_safe_escape)

lemma modelled_refs_escape_char: "modelled_refs (escape_char c @ rest) = modelled_refs rest"
  by (simp add: escape_char_def)

lemma modelled_refs_escape: "modelled_refs (concat (map escape_char w))"
  by (induction w) (simp_all add: modelled_refs_escape_char del: modelled_refs.simps(2))

lemma modelled_refs_escapeHTML: "modelled_refs (escapeHTML v)"
  by (simp add: escapeHTML_def modelled_refs_escape)

lemma refs_without_ampersand:
  "CHR ''&'' \<notin> set w \<Longrightarrow> modelled_refs w \<and> decode_refs w = w"
  by (induction w) auto

text \<open>
  A rendered row whose fields leave the markup alone has one edit button, with the
  attributes the template gives it.
\<close>

lemma row_edit_buttons:
  assumes "row_html e video = Inr row" and "row_fields_plain e video"
  shows "edit_buttons row =
    Some [[(''class'', ''edit-button''),
           (''data-share-id'', js_to_string (read_prop video ''share_id'')),
           (''data-video-name'', escapeHTML (read_prop video ''video_name'')),
           (''data-days-valid'',
              show_number (calculateDaysRemaining e (read_prop video ''expires_at'')))]]"
proof -
  obtain expires_at where x: "get_prop video ''expires_at'' = Inr expires_at"
    using assms(1) by (cases "get_prop video ''expires_at''") (simp_all add: row_html_def)
  have row: \<open>row = concat
             [nl, ''                <td>'', js_to_string (read_prop video ''share_id''), ''</td>'',
              nl, ''                <td>'', escapeHTML (read_prop video ''video_name''), ''</td>'',
              nl, ''                <td>'', js_to_string (read_prop video ''stash_video_id''), ''</td>'',
              nl, ''                <td>'', toLocaleString e (read_prop video ''expires_at''), ''</td>'',
              nl, ''                <td>'', js_to_string (read_prop video ''hits''), ''</td>'',
              nl, ''                <td>'',
              nl, ''                    <a href="'', js_to_string (read_prop video ''share_url''),
                  ''" target="_blank">'', js_to_string (read_prop video ''share_url''), ''</a>'',
              nl, ''                    <button class="copy-button" data-url="'',
                  js_to_string (read_prop video ''share_url''),
                  ''">Copy</button>'',
              nl, ''                </td>'',
              nl, ''                <td>'',
              nl, ''                    <button class="edit-button" data-share-id="'',
                  js_to_string (read_prop video ''share_id''),
                  ''" data-video-name="'', escapeHTML (read_prop video ''video_name''),
                  ''" data-days-valid="'',
                  show_number (calculateDaysRemaining e (read_prop video ''expires_at'')),
                  ''">Edit</button>'',
              nl, ''                    <button class="delete-button" data-share-id="'',
                  js_to_string (read_prop video ''share_id''),
                  ''">Delete</button>'',
              nl, ''                </td>'',
              nl, ''            '']\<close>
    using assms(1) x by (simp add: row_html_def Let_def read_prop_def)
  have "start_tags_of row =
     Some [(''td'', []), (''td'', []), (''td'', []), (''td'', []), (''td'', []), (''td'', []),
       (''a'', [(''href'', js_to_string (read_prop video ''share_url'')), (''target'', ''_blank'')]),
       (''button'', [(''class'', ''copy-button''),
          (''data-url'', js_to_string (read_prop video ''share_url''))]),
       (''td'', []),
       (''button'', [(''class'', ''edit-button''),
          (''data-share-id'', js_to_string (read_prop video ''share_id'')),
          (''data-video-name'', escapeHTML (read_prop video ''video_name'')),
          (''data-days-valid'',
             show_number (calculateDaysRemaining e (read_prop video ''expires_at'')))]),
       (''button'', [(''class'', ''delete-button''),
          (''data-share-id'', js_to_string (read_prop video ''share_id''))])]"
    unfolding row
    using assms(2)
    by (intro tokenize_row)
       (simp_all add: row_fields_plain_def text_safe_escapeHTML value_safe_escapeHTML
          show_number_safe)
  then show ?thesis
    by (simp only: edit_buttons_def option.case edit_button_among_row_tags)
qed

lemma editButton_click_prefill:
  assumes "row_html e video = Inr row" and "row_fields_plain e video"
  shows "\<exists>attrs. edit_buttons row = Some [attrs] \<and>
    (\<exists>target. reads_button attrs target) \<and>
    (\<forall>target. reads_button attrs target \<longrightarrow>
       editVideoNameInput (editButton_click target s) =
         js_to_string (read_prop video ''video_name'') \<and>
       editDaysValidInput (editButton_click target s) =
         show_int (case calculateDaysRemaining e (read_prop video ''expires_at'') of
                     None \<Rightarrow> 7
                   | Some n \<Rightarrow> if 1 \<le> n then n else 7) \<and>
       (CHR ''&'' \<notin> set (js_to_string (read_prop video ''share_id'')) \<longrightarrow>
          editShareIdInput (editButton_click target s) =
            js_to_string (read_prop video ''share_id'')) \<and>
       editModal_display (editButton_click target s) = ''block'' \<and>
       editError (editButton_click target s) = [] \<and>
       trace (editButton_click target s) = trace s)"
proof -
  let ?sid = "js_to_string (read_prop video ''share_id'')"
  let ?name = "escapeHTML (read_prop video ''video_name'')"
  let ?days = "show_number (calculateDaysRemaining e (read_prop video ''expires_at''))"
  let ?attrs = "[(''class'', ''edit-button''), (''data-share-id'', ?sid),
    (''data-video-name'', ?name), (''data-days-valid'', ?days)]"
  have b: "edit_buttons row = Some [?attrs]"
    using assms by (rule row_edit_buttons)
  have days: "modelled_refs ?days" "decode_refs ?days = ?days"
    using refs_without_ampersand [of ?days] show_number_safe by simp_all
  have r: "reads_button ?attrs target \<longleftrightarrow>
      (if modelled_refs ?sid then data_share_id target = Some (decode_refs ?sid)
       else data_share_id target \<noteq> None) \<and>
      data_video_name target = Some (js_to_string (read_prop video ''video_name'')) \<and>
      data_days_valid target = Some ?days" for target
    by (simp add: reads_button_def reads_attribute_def modelled_refs_escapeHTML
          decode_refs_escapeHTML days)
  have ex: "\<exists>target. reads_button ?attrs target"
    unfolding r
    by (intro exI [of _ "\<lparr>data_share_id = Some (decode_refs ?sid),
          data_video_name = Some (js_to_string (read_prop video ''video_name'')),
          data_days_valid = Some ?days\<rparr>"]) simp
  have fill: "editVideoNameInput (editButton_click target s) =
         js_to_string (read_prop video ''video_name'') \<and>
       editDaysValidInput (editButton_click target s) =
         show_int (case calculateDaysRemaining e (read_prop video ''expires_at'') of
                     None \<Rightarrow> 7
                   | Some n \<Rightarrow> if 1 \<le> n then n else 7) \<and>
       (CHR ''&'' \<notin> set ?sid \<longrightarrow> editShareIdInput (editButton_click target s) = ?sid) \<and>
       editModal_display (editButton_click target s) = ''block'' \<and>
       editError (editButton_click target s) = [] \<and>
       trace (editButton_click target s) = trace s"
    if "reads_button ?attrs target" for target
  proof -
    from that have t: "data_video_name target = Some (js_to_string (read_prop video ''video_name''))"
        "data_days_valid target = Some ?days"
        "CHR ''&'' \<notin> set ?sid \<Longrightarrow> data_share_id target = Some ?sid"
      using refs_without_ampersand [of ?sid] by (auto simp: r)
    show ?thesis
      using t
      by (simp add: editButton_click_def clearMessages_def input_value_def
            edit_days_of_remaining)
  qed
  from b ex fill show ?thesis by blast
qed

lemma saveEditButton_click_rejected:
  assumes "\<not> edit_fields_valid s"
  shows "trace (saveEditButton_click e s) = trace s \<and>
    editError (saveEditButton_click e s) = ''Please fill in all fields correctly.'' \<and>
    editModal_display (saveEditButton_click e s) = editModal_display s"
proof (cases rule: saveEditButton_click_cases [of s e])
  case invalid
  then show ?thesis by (simp add: clearMessages_frame)
qed (use assms in simp_all)

lemma saveEditButton_click_saved:
  assumes "parseInt10 (editDaysValidInput s) = Some dv" and "editVideoNameInput s \<noteq> []"
    and a: "apiRequest e (''/edit_share/'' @ editShareIdInput s) ''PUT''
         (updatedData (editVideoNameInput s) dv) True (clearMessages s) = (s1, Inr r)"
  shows "editModal_display (saveEditButton_click e s) = ''none'' \<and>
    editError (saveEditButton_click e s) = [] \<and>
    (\<exists>r r'. response_ok r \<and> new_events s (saveEditButton_click e s) =
       [Sent (api_options (''/edit_share/'' @ editShareIdInput s) ''PUT''
               (updatedData (editVideoNameInput s) dv) (authToken s)),
        Received (Resolved r),
        Sent (api_options ''/shared_videos'' ''GET'' JNull (authToken s)),
        Received r'])"
proof -
  let ?s2 = "s1\<lparr>editModal_display := ''none''\<rparr>"
  have eq: "saveEditButton_click e s = fetchSharedVideos e ?s2"
    using assms by (simp add: saveEditButton_click_def Let_def clearMessages_frame)
  from api_ok [OF a] obtain r where r:
    "request_events e (''/edit_share/'' @ editShareIdInput s) ''PUT''
        (updatedData (editVideoNameInput s) dv) (clearMessages s) =
       [Sent (api_options (''/edit_share/'' @ editShareIdInput s) ''PUT''
               (updatedData (editVideoNameInput s) dv) (authToken s)),
        Received (Resolved r)]"
    "response_ok r" and tok: "js_truthy (authToken s)" "authToken s1 = authToken s"
    by (auto simp: clearMessages_frame)
  have tok2: "authToken ?s2 = authToken s" "js_truthy (authToken ?s2)"
    using tok by simp_all
  have "trace (fetchSharedVideos e ?s2) =
      trace s @ (request_events e (''/edit_share/'' @ editShareIdInput s) ''PUT''
        (updatedData (editVideoNameInput s) dv) (clearMessages s) @ refresh_events e ?s2)"
    using api_trace [OF a] by (simp add: fsv_trace clearMessages_frame)
  from new_events_append [OF this]
  have ev: "\<exists>r'. new_events s (saveEditButton_click e s) =
       [Sent (api_options (''/edit_share/'' @ editShareIdInput s) ''PUT''
               (updatedData (editVideoNameInput s) dv) (authToken s)),
        Received (Resolved r),
        Sent (api_options ''/shared_videos'' ''GET'' JNull (authToken s)),
        Received r']"
    using r(1) tok2 by (simp add: eq refresh_events_def request_events_def)
  have fr: "editError s1 = []"
    using api_frame [OF a] by (simp add: clearMessages_def)
  show ?thesis
    using ev r(2) fr fsv_frame [of e ?s2] by (auto simp: eq)
qed

lemma saveEditButton_click_failed:
  assumes "parseInt10 (editDaysValidInput s) = Some dv" and "editVideoNameInput s \<noteq> []"
    and a: "apiRequest e (''/edit_share/'' @ editShareIdInput s) ''PUT''
         (updatedData (editVideoNameInput s) dv) True (clearMessages s) = (s1, Inl err)"
  shows "editError (saveEditButton_click e s) = ''Failed to update share: '' @ message err \<and>
    editModal_display (saveEditButton_click e s) = editModal_display s \<and>
    new_events s (saveEditButton_click e s) =
      request_events e (''/edit_share/'' @ editShareIdInput s) ''PUT''
        (updatedData (editVideoNameInput s) dv) (clearMessages s)"
proof -
  have eq: "saveEditButton_click e s =
      s1\<lparr>editError := ''Failed to update share: '' @ message err\<rparr>"
    using assms by (simp add: saveEditButton_click_def Let_def clearMessages_frame)
  have "trace (saveEditButton_click e s) =
      trace s @ request_events e (''/edit_share/'' @ editShareIdInput s) ''PUT''
        (updatedData (editVideoNameInput s) dv) (clearMessages s)"
    using api_trace [OF a] by (simp add: eq clearMessages_frame)
  from new_events_append [OF this] show ?thesis
    using api_frame [OF a] by (simp add: eq clearMessages_frame)
qed

text \<open>
  C7, as amended. Take a row whose fields leave its markup as the template lays it out:
  the fields inserted unescaped hold no \<^verbatim>\<open><\<close>, and the share id, the URL and the name
  hold no quotation mark, carriage return or NUL. The row then has one edit button, and
  its edit action opens the modal with the record's current name, and with the days
  field set to the computed days remaining when that is at least 1, and to the default
  7 when the record has expired (0 days remaining) or its expiry is not a date. Saving
  validates that the name is not empty and that \<^verbatim>\<open>parseInt(..., 10)\<close> reads a number
  of days; otherwise the inline message is shown, nothing is sent and the modal stays.
  When the \<^verbatim>\<open>PUT\<close> succeeds the modal is closed and the list refresh is sent after
  it; when it fails the error is shown inline, the modal stays and there is no refresh.
\<close>

theorem edit_prefills_and_saves:
  "(\<forall>video row.
      row_html e video = Inr row \<and> row_fields_plain e video \<longrightarrow>
      (\<exists>attrs. edit_buttons row = Some [attrs] \<and>
         (\<exists>target. reads_button attrs target) \<and>
         (\<forall>target. reads_button attrs target \<longrightarrow>
            editVideoNameInput (editButton_click target s) =
              js_to_string (read_prop video ''video_name'') \<and>
            editDaysValidInput (editButton_click target s) =
              show_int (case calculateDaysRemaining e (read_prop video ''expires_at'') of
                          None \<Rightarrow> 7
                        | Some n \<Rightarrow> if 1 \<le> n then n else 7) \<and>
            (CHR ''&'' \<notin> set (js_to_string (read_prop video ''share_id'')) \<longrightarrow>
               editShareIdInput (editButton_click target s) =
                 js_to_string (read_prop video ''share_id'')) \<and>
            editModal_display (editButton_click target s) = ''block'' \<and>
            editError (editButton_click target s) = [] \<and>
            trace (editButton_click target s) = trace s))) \<and>
   (parseInt10 (editDaysValidInput s) = None \<or> editVideoNameInput s = [] \<longrightarrow>
      trace (saveEditButton_click e s) = trace s \<and>
      editError (saveEditButton_click e s) = ''Please fill in all fields correctly.'' \<and>
      editModal_display (saveEditButton_click e s) = editModal_display s) \<and>
   (\<forall>dv s1 r.
      parseInt10 (editDaysValidInput s) = Some dv \<and> editVideoNameInput s \<noteq> [] \<and>
      apiRequest e (''/edit_share/'' @ editShareIdInput s) ''PUT''
        (updatedData (editVideoNameInput s) dv) True (clearMessages s) = (s1, Inr r) \<longrightarrow>
        editModal_display (saveEditButton_click e s) = ''none'' \<and>
        editError (saveEditButton_click e s) = [] \<and>
        (\<exists>r r'. response_ok r \<and> new_events s (saveEditButton_click e s) =
           [Sent (api_options (''/edit_share/'' @ editShareIdInput s) ''PUT''
                   (updatedData (editVideoNameInput s) dv) (authToken s)),
            Received (Resolved r),
            Sent (api_options ''/shared_videos'' ''GET'' JNull (authToken s)),
            Received r'])) \<and>
   (\<forall>dv s1 err.
      parseInt10 (editDaysValidInput s) = Some dv \<and> editVideoNameInput s \<noteq> [] \<and>
      apiRequest e (''/edit_share/'' @ editShareIdInput s) ''PUT''
        (updatedData (editVideoNameInput s) dv) True (clearMessages s) = (s1, Inl err) \<longrightarrow>
        editError (saveEditButton_click e s) = ''Failed to update share: '' @ message err \<and>
        editModal_display (saveEditButton_click e s) = editModal_display s \<and>
        new_events s (saveEditButton_click e s) =
          request_events e (''/edit_share/'' @ editShareIdInput s) ''PUT''
            (updatedData (editVideoNameInput s) dv) (clearMessages s))"
proof -
  have 1: "trace (saveEditButton_click e s) = trace s \<and>
      editError (saveEditButton_click e s) = ''Please fill in all fields correctly.'' \<and>
      editModal_display (saveEditButton_click e s) = editModal_display s"
    if "parseInt10 (editDaysValidInput s) = None \<or> editVideoNameInput s = []"
  proof -
    from that have "\<not> edit_fields_valid s" by (auto simp: edit_fields_valid_def)
    then show ?thesis by (rule saveEditButton_click_rejected)
  qed
  have 2: "\<exists>attrs. edit_buttons row = Some [attrs] \<and>
         (\<exists>target. reads_button attrs target) \<and>
         (\<forall>target. reads_button attrs target \<longrightarrow>
            editVideoNameInput (editButton_click target s) =
              js_to_string (read_prop video ''video_name'') \<and>
            editDaysValidInput (editButton_click target s) =
              show_int (case calculateDaysRemaining e (read_prop video ''expires_at'') of
                          None \<Rightarrow> 7
                        | Some n \<Rightarrow> if 1 \<le> n then n else 7) \<and>
            (CHR ''&'' \<notin> set (js_to_string (read_prop video ''share_id'')) \<longrightarrow>
               editShareIdInput (editButton_click target s) =
                 js_to_string (read_prop video ''share_id'')) \<and>
            editModal_display (editButton_click target s) = ''block'' \<and>
            editError (editButton_click target s) = [] \<and>
            trace (editButton_click target s) = trace s)"
    if "row_html e video = Inr row \<and> row_fields_plain e video" for video row
    using that editButton_click_prefill [of e video row s] by simp
  have 3: "editModal_display (saveEditButton_click e s) = ''none'' \<and>
        editError (saveEditButton_click e s) = [] \<and>
        (\<exists>r r'. response_ok r \<and> new_events s (saveEditButton_click e s) =
           [Sent (api_options (''/edit_share/'' @ editShareIdInput s) ''PUT''
                   (updatedData (editVideoNameInput s) dv) (authToken s)),
            Received (Resolved r),
            Sent (api_options ''/shared_videos'' ''GET'' JNull (authToken s)),
            Received r'])"
    if "parseInt10 (editDaysValidInput s) = Some dv \<and> editVideoNameInput s \<noteq> [] \<and>
      apiRequest e (''/edit_share/'' @ editShareIdInput s) ''PUT''
        (updatedData (editVideoNameInput s) dv) True (clearMessages s) = (s1, Inr r)"
    for dv s1 r
    using that saveEditButton_click_saved [of s dv e s1 r] by simp
  have 4: "editError (saveEditButton_click e s) = ''Failed to update share: '' @ message err \<and>
        editModal_display (saveEditButton_click e s) = editModal_display s \<and>
        new_events s (saveEditButton_click e s) =
          request_events e (''/edit_share/'' @ editShareIdInput s) ''PUT''
            (updatedData (editVideoNameInput s) dv) (clearMessages s)"
    if "parseInt10 (editDaysValidInput s) = Some dv \<and> editVideoNameInput s \<noteq> [] \<and>
      apiRequest e (''/edit_share/'' @ editShareIdInput s) ''PUT''
        (updatedData (editVideoNameInput s) dv) True (clearMessages s) = (s1, Inl err)"
    for dv s1 err
    using that saveEditButton_click_failed [of s dv e s1 err] by simp
  show ?thesis
    using 1 2 3 4 by blast
qed

lemma show_nat_2: "show_nat 2 = ''2''"
  by (subst show_nat.simps) simp

lemma show_nat_0: "show_nat 0 = ''0''"
  by (subst show_nat.simps) simp

lemma show_nat_7: "show_nat 7 = ''7''"
  by (subst show_nat.simps) simp

lemma remaining_two_days:
  "calculateDaysRemaining (answering failed_to_fetch) (JNum 172801000) = Some 2"
  by (simp add: calculateDaysRemaining_def answering_def Let_def ceil_div_def ms_per_day_def)

lemma remaining_expired:
  "calculateDaysRemaining (answering failed_to_fetch) (JNum 0) = Some 0"
  by (simp add: calculateDaysRemaining_def answering_def Let_def ceil_div_def ms_per_day_def)

theorem edit_prefills_and_saves_witness:
  "row_fields_plain (answering failed_to_fetch) (share_record ''a&b'' ''A & B'' 172801000) \<and>
   (\<exists>row attrs.
      row_html (answering failed_to_fetch) (share_record ''a&b'' ''A & B'' 172801000) = Inr row \<and>
      edit_buttons row = Some [attrs] \<and>
      reads_button attrs \<lparr>data_share_id = Some ''a&b'', data_video_name = Some ''A & B'',
                           data_days_valid = Some ''2''\<rparr>) \<and>
   editVideoNameInput
     (editButton_click \<lparr>data_share_id = Some ''a&b'', data_video_name = Some ''A & B'',
                        data_days_valid = Some ''2''\<rparr>
        (page_with (JStr ''t0'') [] [] [])) = ''A & B'' \<and>
   editDaysValidInput
     (editButton_click \<lparr>data_share_id = Some ''a&b'', data_video_name = Some ''A & B'',
                        data_days_valid = Some ''2''\<rparr>
        (page_with (JStr ''t0'') [] [] [])) = ''2''"
proof -
  let ?e = "answering failed_to_fetch"
  let ?v = "share_record ''a&b'' ''A & B'' 172801000"
  let ?t = "\<lparr>data_share_id = Some ''a&b'', data_video_name = Some ''A & B'',
           data_days_valid = Some ''2''\<rparr>"
  let ?s = "page_with (JStr ''t0'') [] [] []"
  have p: "read_prop ?v ''share_id'' = JStr ''a&b''" "read_prop ?v ''video_name'' = JStr ''A & B''"
    "read_prop ?v ''expires_at'' = JNum 172801000" "read_prop ?v ''stash_video_id'' = JNum 42"
    "read_prop ?v ''hits'' = JNum 0" "read_prop ?v ''share_url'' = JStr ''/share/a&b''"
    by (simp_all add: read_prop_def share_record_def)
  have loc: "toLocaleString ?e = js_to_string"
    by (simp add: answering_def)
  have plain: "row_fields_plain ?e ?v"
    by (simp add: row_fields_plain_def p loc show_int_safe) (simp add: text_safe_def value_safe_def)
  have "\<exists>row. row_html ?e ?v = Inr row"
    by (simp add: row_html_def share_record_def Let_def)
  then obtain row where row: "row_html ?e ?v = Inr row" ..
  from edit_prefills_and_saves [of ?e ?s] row plain
  obtain attrs where a: "edit_buttons row = Some [attrs]"
    and fill: "\<forall>target. reads_button attrs target \<longrightarrow>
            editVideoNameInput (editButton_click target ?s) =
              js_to_string (read_prop ?v ''video_name'') \<and>
            editDaysValidInput (editButton_click target ?s) =
              show_int (case calculateDaysRemaining ?e (read_prop ?v ''expires_at'') of
                          None \<Rightarrow> 7
                        | Some n \<Rightarrow> if 1 \<le> n then n else 7)"
    by blast
  have "attrs = [(''class'', ''edit-button''), (''data-share-id'', ''a&b''),
      (''data-video-name'', escapeHTML (JStr ''A & B'')), (''data-days-valid'', ''2'')]"
    using a row_edit_buttons [OF row plain]
    by (simp add: p remaining_two_days show_number_def show_int_def show_nat_2)
  then have t: "reads_button attrs ?t"
    by (simp add: reads_button_def reads_attribute_def modelled_refs_escapeHTML
          decode_refs_escapeHTML is_alnum_def is_letter_def)
  from fill t have "editVideoNameInput (editButton_click ?t ?s) = ''A & B'' \<and>
      editDaysValidInput (editButton_click ?t ?s) = ''2''"
    by (simp add: p remaining_two_days show_int_def show_nat_2)
  with plain row a t show ?thesis by blast
qed

text \<open>
  The claim as stated fails for an expired record: its days remaining are 0, the row's
  edit button says so, and the modal opens with 7.
\<close>

theorem edit_of_expired_record_prefills_seven:
  "calculateDaysRemaining (answering failed_to_fetch)
     (read_prop (share_record ''ab'' ''clip'' 0) ''expires_at'') = Some 0 \<and>
   (\<exists>row. row_html (answering failed_to_fetch) (share_record ''ab'' ''clip'' 0) = Inr row \<and>
      edit_buttons row =
        Some [[(''class'', ''edit-button''), (''data-share-id'', ''ab''),
               (''data-video-name'', ''clip''), (''data-days-valid'', ''0'')]]) \<and>
   reads_button [(''class'', ''edit-button''), (''data-share-id'', ''ab''),
                 (''data-video-name'', ''clip''), (''data-days-valid'', ''0'')]
     \<lparr>data_share_id = Some ''ab'', data_video_name = Some ''clip'',
      data_days_valid = Some ''0''\<rparr> \<and>
   editDaysValidInput
     (editButton_click \<lparr>data_share_id = Some ''ab'', data_video_name = Some ''clip'',
                        data_days_valid = Some ''0''\<rparr>
        (page_with (JStr ''t0'') [] [] [])) = ''7''"
proof -
  let ?e = "answering failed_to_fetch"
  let ?v = "share_record ''ab'' ''clip'' 0"
  have p: "read_prop ?v ''share_id'' = JStr ''ab''" "read_prop ?v ''video_name'' = JStr ''clip''"
    "read_prop ?v ''expires_at'' = JNum 0" "read_prop ?v ''stash_video_id'' = JNum 42"
    "read_prop ?v ''hits'' = JNum 0" "read_prop ?v ''share_url'' = JStr ''/share/ab''"
    by (simp_all add: read_prop_def share_record_def)
  have loc: "toLocaleString ?e = js_to_string"
    by (simp add: answering_def)
  have plain: "row_fields_plain ?e ?v"
    by (simp add: row_fields_plain_def p loc show_int_safe) (simp add: text_safe_def value_safe_def)
  have "\<exists>row. row_html ?e ?v = Inr row"
    by (simp add: row_html_def share_record_def Let_def)
  then obtain row where row: "row_html ?e ?v = Inr row" ..
  have esc: "escapeHTML (JStr ''clip'') = ''clip''"
    by (simp add: escapeHTML_def escape_char_def)
  have b: "edit_buttons row =
        Some [[(''class'', ''edit-button''), (''data-share-id'', ''ab''),
               (''data-video-name'', ''clip''), (''data-days-valid'', ''0'')]]"
    using row_edit_buttons [OF row plain]
    by (simp add: p remaining_expired show_number_def show_int_def show_nat_0 esc)
  have d: "parseInt ''0'' = Some 0"
    using parseInt_show_int [of 0] by (simp add: show_int_def show_nat_0)
  have r: "reads_button [(''class'', ''edit-button''), (''data-share-id'', ''ab''),
                 (''data-video-name'', ''clip''), (''data-days-valid'', ''0'')]
     \<lparr>data_share_id = Some ''ab'', data_video_name = Some ''clip'',
      data_days_valid = Some ''0''\<rparr>"
    by (simp add: reads_button_def reads_attribute_def)
  have f: "editDaysValidInput
     (editButton_click \<lparr>data_share_id = Some ''ab'', data_video_name = Some ''clip'',
                        data_days_valid = Some ''0''\<rparr>
        (page_with (JStr ''t0'') [] [] [])) = ''7''"
    by (simp add: editButton_click_def clearMessages_def edit_days_def attr_string_def d
          show_int_def show_nat_7)
  from row b r f show ?thesis
    by (simp add: p remaining_expired)
qed

section \<open>Escaping in the rows\<close>

lemma occurs_in_append: "occurs_in p (pre @ p @ post)"
proof (induction pre)
  case Nil
  show ?case
  proof (cases "p @ post")
    case Nil
    then show ?thesis by simp
  next
    case (Cons a list)
    have "take (length p) (p @ post) = p" by simp
    then have "take (length p) (a # list) = p" unfolding Cons .
    then have "occurs_in p (a # list)" by (simp only: occurs_in.simps) simp
    then show ?thesis unfolding append_Nil Cons .
  qed
next
  case (Cons c pre)
  then show ?case by simp
qed

text \<open>
  C3 fails on the code. The static script puts \<^verbatim>\<open>v.video_name\<close> into the row as it
  is: a record named \<^verbatim>\<open><script>\<close> gives a row with that tag in it. The console script
  escapes the name with \<open>escapeHTML\<close>, which leaves the quotation mark alone, and
  puts the result between the quotation marks of the \<^verbatim>\<open>data-video-name\<close> attribute:
  a name with a quotation mark ends the attribute and adds attributes of its own to the
  edit button.
\<close>

theorem rows_insert_unescaped_names:
  \<open>(\<exists>row. static_row_html (answering failed_to_fetch) (share_record ''ab'' ''<script>'' 0) = Inr row \<and>
      occurs_in ''<td><script></td>'' row) \<and>
   (\<exists>row. row_html (answering failed_to_fetch)
             (share_record ''ab'' ''x" onclick="alert(1)'' 0) = Inr row \<and>
      occurs_in ''data-video-name="x" onclick="alert(1)" data-days-valid="0">Edit'' row)\<close>
proof -
  let ?e = "answering failed_to_fetch"
  let ?v = "share_record ''ab'' ''<script>'' 0"
  have p: "get_prop ?v ''hits'' = Inr (JNum 0)" "read_prop ?v ''video_name'' = JStr ''<script>''"
    by (simp_all add: read_prop_def share_record_def)
  have 1: "\<exists>row. static_row_html ?e ?v = Inr row \<and> occurs_in ''<td><script></td>'' row"
  proof -
    let ?pre = "concat [nl, ''                <td>'', js_to_string (read_prop ?v ''share_id''),
      ''</td>'', nl, ''                '']"
    obtain post where "static_row_html ?e ?v = Inr (?pre @ ''<td><script></td>'' @ post)"
      by (simp add: static_row_html_def p)
    then show ?thesis using occurs_in_append by metis
  qed
  let ?w = \<open>share_record ''ab'' ''x" onclick="alert(1)'' 0\<close>
  have q: "get_prop ?w ''expires_at'' = Inr (JNum 0)"
    \<open>read_prop ?w ''video_name'' = JStr ''x" onclick="alert(1)''\<close>
    "read_prop ?w ''expires_at'' = JNum 0"
    by (simp_all add: read_prop_def share_record_def)
  have esc: \<open>escapeHTML (JStr ''x" onclick="alert(1)'') = ''x" onclick="alert(1)''\<close>
    by (simp add: escapeHTML_def escape_char_def)
  have 2: \<open>\<exists>row. row_html ?e ?w = Inr row \<and>
      occurs_in ''data-video-name="x" onclick="alert(1)" data-days-valid="0">Edit'' row\<close>
  proof -
    let ?pre = \<open>concat
             [nl, ''                <td>'', js_to_string (read_prop ?w ''share_id''), ''</td>'',
              nl, ''                <td>'', escapeHTML (read_prop ?w ''video_name''), ''</td>'',
              nl, ''                <td>'', js_to_string (read_prop ?w ''stash_video_id''), ''</td>'',
              nl, ''                <td>'', toLocaleString ?e (JNum 0), ''</td>'',
              nl, ''                <td>'', js_to_string (read_prop ?w ''hits''), ''</td>'',
              nl, ''                <td>'',
              nl, ''                    <a href="'', js_to_string (read_prop ?w ''share_url''),
                  ''" target="_blank">'', js_to_string (read_prop ?w ''share_url''), ''</a>'',
              nl, ''                    <button class="copy-button" data-url="'',
                  js_to_string (read_prop ?w ''share_url''),
                  ''">Copy</button>'',
              nl, ''                </td>'',
              nl, ''                <td>'',
              nl, ''                    <button class="edit-button" data-share-id="'',
                  js_to_string (read_prop ?w ''share_id''), ''" '']\<close>
    obtain post where \<open>row_html ?e ?w =
        Inr (?pre @ ''data-video-name="x" onclick="alert(1)" data-days-valid="0">Edit'' @ post)\<close>
      by (simp add: row_html_def q esc Let_def remaining_expired show_number_def show_int_def
            show_nat_0)
    then show ?thesis using occurs_in_append by metis
  qed
  from 1 2 show ?thesis by simp
qed

section \<open>Further properties\<close>

text \<open>
  The text that \<open>escapeHTML\<close> returns holds no angle bracket, whatever the value: a
  name inserted as the text of a table cell cannot open or close a tag.
\<close>

theorem escapeHTML_no_angle_bracket:
  "CHR ''<'' \<notin> set (escapeHTML v) \<and> CHR ''>'' \<notin> set (escapeHTML v)"
  by (simp add: escapeHTML_def escape_char_no_angle)

text \<open>
  A list refresh never throws. When the list request fails, or its result cannot be
  rendered, the table body becomes the single row that reports the failure; when the
  result is empty, the row that says so.
\<close>

theorem fetchSharedVideos_failure_row:
  "(\<forall>s1 err. apiRequest e ''/shared_videos'' ''GET'' JNull True s = (s1, Inl err) \<longrightarrow>
      fetchSharedVideos e s = s1\<lparr>tableBody := InnerHTML load_failed_html\<rparr>) \<and>
   (\<forall>s1 videos err.
      apiRequest e ''/shared_videos'' ''GET'' JNull True s = (s1, Inr videos) \<and>
      renderSharedVideos e videos = Inl err \<longrightarrow>
      fetchSharedVideos e s = s1\<lparr>tableBody := InnerHTML load_failed_html\<rparr>) \<and>
   (\<forall>s1 videos.
      apiRequest e ''/shared_videos'' ''GET'' JNull True s = (s1, Inr videos) \<and>
      (\<not> js_truthy videos \<or> videos = JArr []) \<longrightarrow>
      fetchSharedVideos e s = s1\<lparr>tableBody := InnerHTML no_videos_html\<rparr>)"
  by (auto simp: fetchSharedVideos_def renderSharedVideos_def)

theorem fetchSharedVideos_failure_row_witness:
  "tableBody (fetchSharedVideos (answering failed_to_fetch) (page_with (JStr ''t0'') [] [] [])) =
     InnerHTML load_failed_html"
proof -
  let ?e = "answering failed_to_fetch"
  let ?p = "page_with (JStr ''t0'') [] [] []"
  obtain s1 res where a: "apiRequest ?e ''/shared_videos'' ''GET'' JNull True ?p = (s1, res)"
    by (cases "apiRequest ?e ''/shared_videos'' ''GET'' JNull True ?p")
  have "res = Inl (TypeError ''Failed to fetch'')"
    using a
    by (auto simp: apiRequest_def Let_def answering_def failed_to_fetch_def page_with_def)
  with fetchSharedVideos_failure_row [of ?e ?p] a show ?thesis
    by simp
qed

end
